theory Spec2Isabelle
  imports Main "HOL-Library.Char_ord" "HOL-Library.List_Lexorder"
begin

unbundle bit_operations_syntax

section \<open>Python string primitives used by trace_inputs.py\<close>

text \<open>
  Strings are Python 2 byte strings, modelled as \<open>char list\<close>. The order on strings is
  the lexicographic order on bytes, as Python's \<open>sorted\<close> uses it.
\<close>

definition startswith :: "string \<Rightarrow> string \<Rightarrow> bool" where
  "startswith s p = (take (length p) s = p)"

definition endswith :: "string \<Rightarrow> string \<Rightarrow> bool" where
  "endswith s p = (length p \<le> length s \<and> drop (length s - length p) s = p)"

text \<open>\<open>sub in s\<close> on strings: substring test.\<close>

fun contains :: "string \<Rightarrow> string \<Rightarrow> bool" where
  "contains [] sub = (sub = [])"
| "contains (c # cs) sub = (startswith (c # cs) sub \<or> contains cs sub)"

section \<open>The orchestrator's partition into tracked and untracked\<close>

text \<open>
  \<^verbatim>\<open>tracked = [f for f in corrected if not f.endswith('/') and ' ' not in f]\<close>
  \<^verbatim>\<open>untracked = [f for f in corrected if f.endswith('/') or ' ' in f]\<close>
\<close>

definition tracked :: "string list \<Rightarrow> string list" where
  "tracked corrected = [f \<leftarrow> corrected. \<not> endswith f ''/'' \<and> \<not> contains f '' '']"

definition untracked :: "string list \<Rightarrow> string list" where
  "untracked corrected = [f \<leftarrow> corrected. endswith f ''/'' \<or> contains f '' '']"

section \<open>Errors\<close>

text \<open>
  The Python exceptions the modelled code can raise. A failed \<^verbatim>\<open>assert\<close> is
  \<open>AssertionError\<close>; \<^verbatim>\<open>getattr\<close> without default on a missing name and
  \<^verbatim>\<open>.group\<close>/\<^verbatim>\<open>.groups\<close> on a failed match (\<^verbatim>\<open>None\<close>) are \<open>AttributeError\<close>;
  a missing dictionary key is \<open>KeyError\<close>; \<^verbatim>\<open>int\<close> on a malformed string and
  \<^verbatim>\<open>relpath\<close> on the empty path are \<open>ValueError\<close>; an index past the end of a list is
  \<open>IndexError\<close>; a failing \<^verbatim>\<open>os.listdir\<close> is \<open>OSError\<close>.
\<close>

datatype error = AssertionError | AttributeError | KeyError | ValueError | IndexError | OSError

section \<open>relevant_files\<close>

text \<open>\<^verbatim>\<open>sorted(set(xs))\<close>: the distinct elements in increasing order.\<close>

definition sorted_set :: "string list \<Rightarrow> string list" where
  "sorted_set xs = sort (remdups xs)"

text \<open>
  The loop of \<^verbatim>\<open>relevant_files\<close>, with the two accumulators \<^verbatim>\<open>expected\<close> and
  \<^verbatim>\<open>unexpected\<close>. \<^verbatim>\<open>assert f\<close> fails on the empty remainder. The argument
  \<^verbatim>\<open>files\<close> is only iterated; the loop variable is rebound, never the collection.
\<close>

fun relevant_files_loop ::
  "string list \<Rightarrow> string \<Rightarrow> string list \<Rightarrow> string list \<Rightarrow> error + (string list \<times> string list)" where
  "relevant_files_loop [] root expected unexpected = Inr (expected, unexpected)"
| "relevant_files_loop (f # files) root expected unexpected =
     (if startswith f root then
        (if drop (length root) f = [] then Inl AssertionError
         else relevant_files_loop files root (expected @ [drop (length root) f]) unexpected)
      else relevant_files_loop files root expected (unexpected @ [f]))"

definition relevant_files :: "string list \<Rightarrow> string \<Rightarrow> error + (string list \<times> string list)" where
  "relevant_files files root =
     (case relevant_files_loop files root [] [] of
        Inl e \<Rightarrow> Inl e
      | Inr (expected, unexpected) \<Rightarrow> Inr (sorted_set expected, sorted_set unexpected))"

section \<open>Path utilities\<close>

text \<open>
  The functions of Python 2.7's \<^verbatim>\<open>posixpath\<close> that the tool calls through
  \<^verbatim>\<open>os.path\<close> and \<^verbatim>\<open>posixpath\<close>, transcribed from the standard library. The
  post-processor is modelled on the hosts of the strace and dtrace flavors, where
  \<^verbatim>\<open>os.path\<close> is \<^verbatim>\<open>posixpath\<close> and \<^verbatim>\<open>os.path.sep\<close> is \<open>/\<close>.
\<close>

text \<open>\<^verbatim>\<open>s.split(c)\<close> for a one-character separator: always at least one field.\<close>

fun split_at :: "char \<Rightarrow> string \<Rightarrow> string list" where
  "split_at c [] = [[]]"
| "split_at c (x # xs) =
     (if x = c then [] # split_at c xs
      else (case split_at c xs of h # t \<Rightarrow> (x # h) # t | [] \<Rightarrow> [[x]]))"

text \<open>\<^verbatim>\<open>sep.join(xs)\<close>.\<close>

fun str_join :: "string \<Rightarrow> string list \<Rightarrow> string" where
  "str_join sep [] = []"
| "str_join sep [x] = x"
| "str_join sep (x # y # ys) = x @ sep @ str_join sep (y # ys)"

text \<open>\<^verbatim>\<open>posixpath.join(a, b)\<close> and the variadic \<^verbatim>\<open>posixpath.join(a, *p)\<close>.\<close>

definition join :: "string \<Rightarrow> string \<Rightarrow> string" where
  "join path b =
     (if startswith b ''/'' then b
      else if path = [] \<or> endswith path ''/'' then path @ b
      else path @ ''/'' @ b)"

definition join_all :: "string \<Rightarrow> string list \<Rightarrow> string" where
  "join_all a p = foldl join a p"

text \<open>
  \<^verbatim>\<open>posixpath.dirname(p)\<close>: everything up to the last \<open>/\<close>, with trailing slashes
  stripped unless the head consists of slashes only.
\<close>

definition rstrip_sep :: "string \<Rightarrow> string" where
  "rstrip_sep s = rev (dropWhile (\<lambda>c. c = CHR ''/'') (rev s))"

definition dirname :: "string \<Rightarrow> string" where
  "dirname p =
     (let head = rev (dropWhile (\<lambda>c. c \<noteq> CHR ''/'') (rev p))
      in if head \<noteq> [] \<and> head \<noteq> replicate (length head) CHR ''/'' then rstrip_sep head else head)"

text \<open>\<^verbatim>\<open>posixpath.normpath(path)\<close>; \<open>normpath_step\<close> is the body of its loop.\<close>

definition normpath_step :: "nat \<Rightarrow> string list \<Rightarrow> string \<Rightarrow> string list" where
  "normpath_step initial_slashes new_comps cmp =
     (if cmp = [] \<or> cmp = ''.'' then new_comps
      else if cmp \<noteq> ''..'' \<or> (initial_slashes = 0 \<and> new_comps = [])
              \<or> (new_comps \<noteq> [] \<and> last new_comps = ''..'')
        then new_comps @ [cmp]
      else if new_comps \<noteq> [] then butlast new_comps
      else new_comps)"

definition normpath :: "string \<Rightarrow> string" where
  "normpath path =
     (if path = [] then ''.''
      else
        let initial_slashes =
              (if startswith path ''/'' then
                 (if startswith path ''//'' \<and> \<not> startswith path ''///'' then 2 else 1)
               else (0::nat));
            comps = foldl (normpath_step initial_slashes) [] (split_at CHR ''/'' path);
            path' = replicate initial_slashes CHR ''/'' @ str_join ''/'' comps
        in if path' = [] then ''.'' else path')"

text \<open>
  \<^verbatim>\<open>posixpath.abspath(path)\<close>; the process's current directory \<^verbatim>\<open>os.getcwd()\<close> is the
  parameter \<open>getcwd\<close>.
\<close>

definition abspath :: "string \<Rightarrow> string \<Rightarrow> string" where
  "abspath getcwd path = normpath (if startswith path ''/'' then path else join getcwd path)"

text \<open>
  \<^verbatim>\<open>posixpath.commonprefix\<close> at two lists of components: their longest common prefix.
\<close>

fun commonprefix :: "'a list \<Rightarrow> 'a list \<Rightarrow> 'a list" where
  "commonprefix (x # xs) (y # ys) = (if x = y then x # commonprefix xs ys else [])"
| "commonprefix _ _ = []"

text \<open>\<^verbatim>\<open>posixpath.relpath(path, start)\<close>; the empty path raises \<open>ValueError\<close>.\<close>

definition relpath :: "string \<Rightarrow> string \<Rightarrow> string \<Rightarrow> error + string" where
  "relpath getcwd path start =
     (if path = [] then Inl ValueError
      else
        let start_list = filter (\<lambda>x. x \<noteq> []) (split_at CHR ''/'' (abspath getcwd start));
            path_list = filter (\<lambda>x. x \<noteq> []) (split_at CHR ''/'' (abspath getcwd path));
            i = length (commonprefix start_list path_list);
            rel_list = replicate (length start_list - i) ''..'' @ drop i path_list
        in if rel_list = [] then Inr ''.'' else Inr (join_all (hd rel_list) (tl rel_list)))"

text \<open>
  \<^verbatim>\<open>posix_relpath(path, root)\<close> of the tool: \<^verbatim>\<open>posixpath.relpath\<close> that keeps a trailing
  slash.
\<close>

definition posix_relpath :: "string \<Rightarrow> string \<Rightarrow> string \<Rightarrow> error + string" where
  "posix_relpath getcwd path root =
     (case relpath getcwd path root of
        Inl e \<Rightarrow> Inl e
      | Inr out \<Rightarrow> Inr (if endswith path ''/'' then out @ ''/'' else out))"

section \<open>Regular expressions\<close>

text \<open>
  Every pattern of the strace and dtrace parsers is a sequence of literal text, repetitions
  of a character class (greedy \<^verbatim>\<open>+\<close>, \<^verbatim>\<open>*\<close> or lazy \<^verbatim>\<open>+?\<close>, \<^verbatim>\<open>*?\<close>, captured as a
  group or not) and a final \<^verbatim>\<open>$\<close>. \<open>Rep cls n greedy captured\<close> is a repetition of
  at least \<open>n\<close> characters of \<open>cls\<close>. \<^verbatim>\<open>re.match\<close> anchors at the start of the string,
  so the leading \<^verbatim>\<open>^\<close> is implicit; a pattern without \<open>Eol\<close> accepts any remainder.
\<close>

datatype atom = Lit string | Rep "char \<Rightarrow> bool" nat bool bool | Eol

text \<open>The backtracking order: a greedy repetition tries the longest run first, a lazy one
  the shortest; the first alternative under which the rest of the pattern matches wins.\<close>

fun first_some :: "(nat \<Rightarrow> 'a option) \<Rightarrow> nat list \<Rightarrow> 'a option" where
  "first_some f [] = None"
| "first_some f (k # ks) = (case f k of Some r \<Rightarrow> Some r | None \<Rightarrow> first_some f ks)"

definition candidates :: "nat \<Rightarrow> nat \<Rightarrow> bool \<Rightarrow> nat list" where
  "candidates mn mx greedy = (if greedy then rev [mn..<Suc mx] else [mn..<Suc mx])"

text \<open>\<^verbatim>\<open>$\<close> matches at the end of the string and before a newline that ends the string.\<close>

primrec re_match_from :: "atom list \<Rightarrow> string \<Rightarrow> string list \<Rightarrow> string list option" where
  "re_match_from [] = (\<lambda>s groups. Some groups)"
| "re_match_from (a # r) = (\<lambda>s groups.
     case a of
       Lit l \<Rightarrow> if startswith s l then re_match_from r (drop (length l) s) groups else None
     | Eol \<Rightarrow> if s = [] \<or> s = [CHR 0x0A] then re_match_from r s groups else None
     | Rep cls mn greedy captured \<Rightarrow>
         first_some
           (\<lambda>k. re_match_from r (drop k s) (if captured then groups @ [take k s] else groups))
           (candidates mn (length (takeWhile cls s)) greedy))"

text \<open>\<^verbatim>\<open>pattern.match(s)\<close>: \<open>None\<close>, or the captured groups in order.\<close>

definition re_match :: "atom list \<Rightarrow> string \<Rightarrow> string list option" where
  "re_match re s = re_match_from re s []"

text \<open>\<^verbatim>\<open>m.group(i)\<close>, numbered from 1.\<close>

definition group :: "string list \<Rightarrow> nat \<Rightarrow> string" where
  "group m i = m ! (i - 1)"

text \<open>The character classes \<^verbatim>\<open>\d\<close>, \<^verbatim>\<open>\s\<close>, \<^verbatim>\<open>.\<close>, \<^verbatim>\<open>[^x]\<close>, \<^verbatim>\<open>[A-Z]\<close>,
  \<^verbatim>\<open>[A-Z\_\|]\<close> and \<^verbatim>\<open>[a-zA-Z_\-]\<close>.\<close>

definition cls_d :: "char \<Rightarrow> bool" where
  "cls_d c = (CHR ''0'' \<le> c \<and> c \<le> CHR ''9'')"

definition cls_s :: "char \<Rightarrow> bool" where
  "cls_s c = (c \<in> {CHR '' '', CHR 0x09, CHR 0x0A, CHR 0x0D, CHR 0x0C, CHR 0x0B})"

definition cls_dot :: "char \<Rightarrow> bool" where
  "cls_dot c = (c \<noteq> CHR 0x0A)"

definition cls_not :: "char \<Rightarrow> char \<Rightarrow> bool" where
  "cls_not x c = (c \<noteq> x)"

definition cls_upper :: "char \<Rightarrow> bool" where
  "cls_upper c = (CHR ''A'' \<le> c \<and> c \<le> CHR ''Z'')"

definition cls_flags :: "char \<Rightarrow> bool" where
  "cls_flags c = (cls_upper c \<or> c = CHR ''_'' \<or> c = CHR ''|'')"

definition cls_name :: "char \<Rightarrow> bool" where
  "cls_name c = ((CHR ''a'' \<le> c \<and> c \<le> CHR ''z'') \<or> cls_upper c \<or> c = CHR ''_'' \<or> c = CHR ''-'')"

text \<open>\<^verbatim>\<open>s.strip()\<close> removes leading and trailing whitespace.\<close>

definition strip :: "string \<Rightarrow> string" where
  "strip s = rev (dropWhile cls_s (rev (dropWhile cls_s s)))"

text \<open>\<^verbatim>\<open>int(g)\<close> at a group matched by \<^verbatim>\<open>\d+\<close>.\<close>

definition int_of_digits :: "string \<Rightarrow> int" where
  "int_of_digits s = foldl (\<lambda>n c. 10 * n + (int (of_char c) - 48)) 0 s"

text \<open>\<^verbatim>\<open>int(s)\<close> at any string: surrounding whitespace and one sign are accepted, anything
  else than decimal digits raises \<open>ValueError\<close> (here \<open>None\<close>).\<close>

definition py_int :: "string \<Rightarrow> int option" where
  "py_int s =
     (case strip s of
        [] \<Rightarrow> None
      | c # r \<Rightarrow>
          if c = CHR ''-'' then (if r \<noteq> [] \<and> list_all cls_d r then Some (- int_of_digits r) else None)
          else if c = CHR ''+'' then (if r \<noteq> [] \<and> list_all cls_d r then Some (int_of_digits r) else None)
          else if list_all cls_d (c # r) then Some (int_of_digits (c # r)) else None)"

text \<open>\<^verbatim>\<open>s.replace('-', '_')\<close>.\<close>

definition replace_dash :: "string \<Rightarrow> string" where
  "replace_dash s = map (\<lambda>c. if c = CHR ''-'' then CHR ''_'' else c) s"

section \<open>The filesystem\<close>

text \<open>
  The parsers and the post-processor ask the filesystem through \<^verbatim>\<open>os.path.isfile\<close>,
  \<^verbatim>\<open>os.path.isdir\<close>, \<^verbatim>\<open>os.path.realpath\<close> and \<^verbatim>\<open>os.listdir\<close>. The filesystem is a
  parameter of the model, fixed during one call; \<^verbatim>\<open>os.listdir\<close> raises \<open>OSError\<close>
  (here \<open>None\<close>) on a path that is not a readable directory.
\<close>

record filesystem =
  isfile :: "string \<Rightarrow> bool"
  isdir :: "string \<Rightarrow> bool"
  realpath :: "string \<Rightarrow> string"
  listdir :: "string \<Rightarrow> string list option"

section \<open>extract_directories\<close>

text \<open>
  The listing of one directory as \<^verbatim>\<open>extract_directories\<close> reads it: the entries of
  \<^verbatim>\<open>os.listdir(os.path.join(root, directory))\<close> that end neither in \<^verbatim>\<open>.svn\<close> nor in
  \<^verbatim>\<open>.pyc\<close>, each joined to \<open>directory\<close>.
\<close>

definition actual :: "string \<Rightarrow> string list \<Rightarrow> string set" where
  "actual directory entries =
     set (map (join directory)
            (filter (\<lambda>f. \<not> (endswith f ''.svn'' \<or> endswith f ''.pyc'')) entries))"

text \<open>The loop over the directories, on the mutable set \<^verbatim>\<open>files\<close>.\<close>

fun extract_directories_loop ::
  "filesystem \<Rightarrow> string \<Rightarrow> string list \<Rightarrow> string set \<Rightarrow> error + string set" where
  "extract_directories_loop fs root [] files = Inr files"
| "extract_directories_loop fs root (directory # directories) files =
     (case listdir fs (join root directory) of
        None \<Rightarrow> Inl OSError
      | Some entries \<Rightarrow>
          if actual directory entries - files = {}
          then extract_directories_loop fs root directories
                 (insert (directory @ ''/'') (files - actual directory entries))
          else extract_directories_loop fs root directories files)"

text \<open>
  \<^verbatim>\<open>extract_directories(files, root)\<close>: the directories are visited in reverse sorted
  order, and the result is the sorted list of the final set.
\<close>

definition extract_directories :: "filesystem \<Rightarrow> string list \<Rightarrow> string \<Rightarrow> error + string list" where
  "extract_directories fs files root =
     (case extract_directories_loop fs root (rev (sorted_set (map dirname files))) (set files) of
        Inl e \<Rightarrow> Inl e
      | Inr files' \<Rightarrow> Inr (sorted_list_of_set files'))"

text \<open>
  What a directory listing looks like on a real filesystem: the names that \<^verbatim>\<open>os.listdir\<close>
  returns are not empty and contain no separator.
\<close>

definition listing_ok :: "filesystem \<Rightarrow> bool" where
  "listing_ok fs \<longleftrightarrow>
     (\<forall>p entries. listdir fs p = Some entries \<longrightarrow>
        (\<forall>e \<in> set entries. e \<noteq> [] \<and> CHR ''/'' \<notin> set e))"

section \<open>The contexts of the parsers\<close>

text \<open>
  Every \<^verbatim>\<open>_Context\<close> class holds the two sets of touched paths, \<^verbatim>\<open>files\<close> and
  \<^verbatim>\<open>non_existent\<close>. \<^verbatim>\<open>Strace._Context\<close> and \<^verbatim>\<open>Dtrace._Context\<close> add \<^verbatim>\<open>_cwd\<close>, which
  maps a pid to its current directory; the strace context adds \<^verbatim>\<open>_pending_calls\<close>, keyed by
  the pair of the pid and the function name as they stand in the log;
  \<^verbatim>\<open>LogmanTrace._Context\<close> adds the set \<^verbatim>\<open>_processes\<close> of tracked pids and the flag
  \<^verbatim>\<open>_first_line\<close>. The \<^verbatim>\<open>blacklist\<close> predicate is constant during a parse and is passed
  along as a parameter.
\<close>

record trace_sets =
  files :: "string set"
  non_existent :: "string set"

record trace_context = trace_sets +
  cwd :: "int \<rightharpoonup> string"

record strace_context = trace_context +
  pending_calls :: "(string \<times> string) \<rightharpoonup> string"

record logman_context = trace_sets +
  processes :: "int set"
  first_line :: bool

text \<open>
  The invariant of the two sets during a parse: they are disjoint, \<^verbatim>\<open>files\<close> holds regular
  files only and \<^verbatim>\<open>non_existent\<close> holds none.
\<close>

definition sets_inv :: "filesystem \<Rightarrow> 'a trace_sets_scheme \<Rightarrow> bool" where
  "sets_inv fs ctx \<longleftrightarrow>
     files ctx \<inter> non_existent ctx = {}
     \<and> (\<forall>f \<in> files ctx. isfile fs f) \<and> (\<forall>g \<in> non_existent ctx. \<not> isfile fs g)"

section \<open>The strace parser\<close>

text \<open>The patterns of \<^verbatim>\<open>Strace._Context\<close>.\<close>

text \<open>\<^verbatim>\<open>RE_HEADER = ^(\d+)\s+([^\(]+)\((.+?)\)\s+= (.+)$\<close>\<close>
definition RE_HEADER :: "atom list" where
  "RE_HEADER = [Rep cls_d 1 True True, Rep cls_s 1 True False, Rep (cls_not CHR ''('') 1 True True,
     Lit ''('', Rep cls_dot 1 False True, Lit '')'', Rep cls_s 1 True False, Lit ''= '',
     Rep cls_dot 1 True True, Eol]"

text \<open>\<^verbatim>\<open>RE_UNFINISHED = ^(\d+)\s+([^\(]+).*$\<close>\<close>
definition RE_UNFINISHED :: "atom list" where
  "RE_UNFINISHED = [Rep cls_d 1 True True, Rep cls_s 1 True False,
     Rep (cls_not CHR ''('') 1 True True, Rep cls_dot 0 True False, Eol]"

definition UNFINISHED :: string where
  "UNFINISHED = '' <unfinished ...>''"

text \<open>\<^verbatim>\<open>RE_RESUMED = ^(\d+)\s+<\.\.\. ([^ ]+) resumed> (.+)$\<close>\<close>
definition RE_RESUMED :: "atom list" where
  "RE_RESUMED = [Rep cls_d 1 True True, Rep cls_s 1 True False, Lit ''<... '',
     Rep (cls_not CHR '' '') 1 True True, Lit '' resumed> '', Rep cls_dot 1 True True, Eol]"

text \<open>\<^verbatim>\<open>RE_SIGNAL = ^\d+\s+--- SIG[A-Z]+ .+ ---\<close>\<close>
definition RE_SIGNAL :: "atom list" where
  "RE_SIGNAL = [Rep cls_d 1 True False, Rep cls_s 1 True False, Lit ''--- SIG'',
     Rep cls_upper 1 True False, Lit '' '', Rep cls_dot 1 True False, Lit '' ---'']"

text \<open>\<^verbatim>\<open>RE_KILLED = ^(\d+)\s+\+\+\+ killed by ([A-Z]+) \+\+\+$\<close>\<close>
definition RE_KILLED :: "atom list" where
  "RE_KILLED = [Rep cls_d 1 True True, Rep cls_s 1 True False, Lit ''+++ killed by '',
     Rep cls_upper 1 True True, Lit '' +++'', Eol]"

text \<open>\<^verbatim>\<open>RE_UNAVAILABLE = \)\s+= \? <unavailable>$\<close>, used with \<^verbatim>\<open>match\<close>: at the start of
  the line.\<close>
definition RE_UNAVAILABLE :: "atom list" where
  "RE_UNAVAILABLE = [Lit '')'', Rep cls_s 1 True False, Lit ''= ? <unavailable>'', Eol]"

text \<open>\<^verbatim>\<open>RE_CHDIR = ^\"(.+?)\"$\<close>\<close>
definition RE_CHDIR :: "atom list" where
  "RE_CHDIR = [Lit [CHR 0x22], Rep cls_dot 1 False True, Lit [CHR 0x22], Eol]"

text \<open>\<^verbatim>\<open>RE_EXECVE = ^\"(.+?)\", \[.+?\], \[.+?\]$\<close>\<close>
definition RE_EXECVE :: "atom list" where
  "RE_EXECVE = [Lit [CHR 0x22], Rep cls_dot 1 False True, Lit (CHR 0x22 # '', [''),
     Rep cls_dot 1 False False, Lit ''], ['', Rep cls_dot 1 False False, Lit '']'', Eol]"

text \<open>\<^verbatim>\<open>RE_OPEN2 = ^\"(.*?)\", ([A-Z\_\|]+)$\<close>\<close>
definition RE_OPEN2 :: "atom list" where
  "RE_OPEN2 = [Lit [CHR 0x22], Rep cls_dot 0 False True, Lit (CHR 0x22 # '', ''),
     Rep cls_flags 1 True True, Eol]"

text \<open>\<^verbatim>\<open>RE_OPEN3 = ^\"(.*?)\", ([A-Z\_\|]+), (\d+)$\<close>\<close>
definition RE_OPEN3 :: "atom list" where
  "RE_OPEN3 = [Lit [CHR 0x22], Rep cls_dot 0 False True, Lit (CHR 0x22 # '', ''),
     Rep cls_flags 1 True True, Lit '', '', Rep cls_d 1 True True, Eol]"

text \<open>\<^verbatim>\<open>RE_RENAME = ^\"(.+?)\", \"(.+?)\"$\<close>\<close>
definition RE_RENAME :: "atom list" where
  "RE_RENAME = [Lit [CHR 0x22], Rep cls_dot 1 False True, Lit (CHR 0x22 # '', '' @ [CHR 0x22]),
     Rep cls_dot 1 False True, Lit [CHR 0x22], Eol]"

text \<open>
  The handlers of \<^verbatim>\<open>Strace._Context\<close>. Each takes the context and returns the updated
  context or the exception raised; the unused parameter \<^verbatim>\<open>_function\<close> is left out.
\<close>

text \<open>\<^verbatim>\<open>handle_chdir\<close>: updates the cwd of \<open>pid\<close>; a failed \<^verbatim>\<open>chdir\<close> is rejected.\<close>

definition strace_handle_chdir :: "strace_context \<Rightarrow> int \<Rightarrow> string \<Rightarrow> string \<Rightarrow> error + strace_context" where
  "strace_handle_chdir ctx pid args result =
     (if startswith result ''0'' then
        (case re_match RE_CHDIR args of
           None \<Rightarrow> Inl AttributeError
         | Some m \<Rightarrow>
             if \<not> startswith (group m 1) ''/'' then
               (case cwd ctx pid of
                  None \<Rightarrow> Inl KeyError
                | Some previous \<Rightarrow> Inr (ctx\<lparr>cwd := (cwd ctx)(pid \<mapsto> join previous (group m 1))\<rparr>))
             else Inr (ctx\<lparr>cwd := (cwd ctx)(pid \<mapsto> group m 1)\<rparr>))
      else Inl AssertionError)"

text \<open>\<^verbatim>\<open>handle_clone\<close>: the child inherits the cwd of \<open>pid\<close>.\<close>

definition strace_handle_clone :: "strace_context \<Rightarrow> int \<Rightarrow> string \<Rightarrow> error + strace_context" where
  "strace_handle_clone ctx pid result =
     (if result = ''? ERESTARTNOINTR (To be restarted)'' then Inr ctx
      else
        (case cwd ctx pid of
           None \<Rightarrow> Inl KeyError
         | Some inherited \<Rightarrow>
             (case py_int result of
                None \<Rightarrow> Inl ValueError
              | Some child \<Rightarrow> Inr (ctx\<lparr>cwd := (cwd ctx)(child \<mapsto> inherited)\<rparr>))))"

text \<open>\<^verbatim>\<open>handle_exit_group\<close>: \<^verbatim>\<open>del self._cwd[pid]\<close>.\<close>

definition strace_handle_exit_group :: "strace_context \<Rightarrow> int \<Rightarrow> error + strace_context" where
  "strace_handle_exit_group ctx pid =
     (case cwd ctx pid of
        None \<Rightarrow> Inl KeyError
      | Some _ \<Rightarrow> Inr (ctx\<lparr>cwd := (cwd ctx)(pid := None)\<rparr>))"

text \<open>\<^verbatim>\<open>_handle_file\<close>: a failed call is dropped; a relative path is resolved against the
  cwd of \<open>pid\<close>; a blacklisted path is dropped; a path seen for the first time goes to
  \<^verbatim>\<open>files\<close> when it is a regular file now and to \<^verbatim>\<open>non_existent\<close> otherwise.\<close>

definition strace_handle_file ::
  "filesystem \<Rightarrow> (string \<Rightarrow> bool) \<Rightarrow> strace_context \<Rightarrow> int \<Rightarrow> string \<Rightarrow> string \<Rightarrow> error + strace_context" where
  "strace_handle_file fs blacklist ctx pid filepath result =
     (if startswith result ''-1'' then Inr ctx
      else
        (case (if \<not> startswith filepath ''/''
               then (case cwd ctx pid of None \<Rightarrow> Inl KeyError | Some d \<Rightarrow> Inr (join d filepath))
               else Inr filepath) of
           Inl e \<Rightarrow> Inl e
         | Inr filepath' \<Rightarrow>
             if blacklist filepath' then Inr ctx
             else if filepath' \<notin> files ctx \<and> filepath' \<notin> non_existent ctx then
               (if isfile fs filepath' then Inr (ctx\<lparr>files := insert filepath' (files ctx)\<rparr>)
                else Inr (ctx\<lparr>non_existent := insert filepath' (non_existent ctx)\<rparr>))
             else Inr ctx))"

definition strace_handle_execve ::
  "filesystem \<Rightarrow> (string \<Rightarrow> bool) \<Rightarrow> strace_context \<Rightarrow> int \<Rightarrow> string \<Rightarrow> string \<Rightarrow> error + strace_context" where
  "strace_handle_execve fs blacklist ctx pid args result =
     (case re_match RE_EXECVE args of
        None \<Rightarrow> Inl AttributeError
      | Some m \<Rightarrow> strace_handle_file fs blacklist ctx pid (group m 1) result)"

text \<open>\<^verbatim>\<open>handle_open\<close>: \<^verbatim>\<open>args\<close> becomes the tuple \<^verbatim>\<open>groups()\<close> of the first of
  \<^verbatim>\<open>RE_OPEN3\<close>, \<^verbatim>\<open>RE_OPEN2\<close> that matches; directories are dropped.\<close>

definition strace_handle_open ::
  "filesystem \<Rightarrow> (string \<Rightarrow> bool) \<Rightarrow> strace_context \<Rightarrow> int \<Rightarrow> string \<Rightarrow> string \<Rightarrow> error + strace_context" where
  "strace_handle_open fs blacklist ctx pid args result =
     (case (case re_match RE_OPEN3 args of Some m \<Rightarrow> Some m | None \<Rightarrow> re_match RE_OPEN2 args) of
        None \<Rightarrow> Inl AttributeError
      | Some groups \<Rightarrow>
          if contains (groups ! 1) ''O_DIRECTORY'' then Inr ctx
          else strace_handle_file fs blacklist ctx pid (groups ! 0) result)"

definition strace_handle_rename ::
  "filesystem \<Rightarrow> (string \<Rightarrow> bool) \<Rightarrow> strace_context \<Rightarrow> int \<Rightarrow> string \<Rightarrow> string \<Rightarrow> error + strace_context" where
  "strace_handle_rename fs blacklist ctx pid args result =
     (case re_match RE_RENAME args of
        None \<Rightarrow> Inl AttributeError
      | Some groups \<Rightarrow>
          (case strace_handle_file fs blacklist ctx pid (groups ! 0) result of
             Inl e \<Rightarrow> Inl e
           | Inr ctx' \<Rightarrow> strace_handle_file fs blacklist ctx' pid (groups ! 1) result))"

text \<open>\<^verbatim>\<open>traces()\<close>: the names for which the class has a \<^verbatim>\<open>handle_\<close> method.\<close>

definition strace_traces :: "string list" where
  "strace_traces = [''chdir'', ''clone'', ''execve'', ''exit_group'', ''fork'', ''open'',
     ''rename'', ''stat64'', ''vfork'']"

text \<open>
  The end of \<^verbatim>\<open>on_line\<close>: the line must match \<^verbatim>\<open>RE_HEADER\<close>, and
  \<^verbatim>\<open>getattr(self, 'handle_%s' % m.group(2))\<close>, which has no default, is called with the pid,
  the arguments and the result. \<^verbatim>\<open>handle_fork\<close>, \<^verbatim>\<open>handle_stat64\<close> and
  \<^verbatim>\<open>handle_vfork\<close> are \<^verbatim>\<open>assert False\<close>.
\<close>

definition strace_dispatch ::
  "filesystem \<Rightarrow> (string \<Rightarrow> bool) \<Rightarrow> strace_context \<Rightarrow> string \<Rightarrow> error + strace_context" where
  "strace_dispatch fs blacklist ctx line =
     (case re_match RE_HEADER line of
        None \<Rightarrow> Inl AssertionError
      | Some m \<Rightarrow>
          if group m 2 = ''chdir''
            then strace_handle_chdir ctx (int_of_digits (group m 1)) (group m 3) (group m 4)
          else if group m 2 = ''clone''
            then strace_handle_clone ctx (int_of_digits (group m 1)) (group m 4)
          else if group m 2 = ''execve''
            then strace_handle_execve fs blacklist ctx (int_of_digits (group m 1)) (group m 3) (group m 4)
          else if group m 2 = ''exit_group''
            then strace_handle_exit_group ctx (int_of_digits (group m 1))
          else if group m 2 = ''fork'' then Inl AssertionError
          else if group m 2 = ''open''
            then strace_handle_open fs blacklist ctx (int_of_digits (group m 1)) (group m 3) (group m 4)
          else if group m 2 = ''rename''
            then strace_handle_rename fs blacklist ctx (int_of_digits (group m 1)) (group m 3) (group m 4)
          else if group m 2 = ''stat64'' then Inl AssertionError
          else if group m 2 = ''vfork'' then Inl AssertionError
          else Inl AttributeError)"

text \<open>
  \<^verbatim>\<open>on_line\<close>: signals are ignored, a kill removes the cwd of the process, an unfinished
  call is stored under the key of its pid and function name, an unavailable call is
  ignored, a resumed call is glued to the stored line, and the line is dispatched.
\<close>

definition strace_on_line ::
  "filesystem \<Rightarrow> (string \<Rightarrow> bool) \<Rightarrow> strace_context \<Rightarrow> string \<Rightarrow> error + strace_context" where
  "strace_on_line fs blacklist ctx raw =
     (if re_match RE_SIGNAL (strip raw) \<noteq> None then Inr ctx
      else
        (case re_match RE_KILLED (strip raw) of
           Some m \<Rightarrow> strace_handle_exit_group ctx (int_of_digits (group m 1))
         | None \<Rightarrow>
             if endswith (strip raw) UNFINISHED then
               (case re_match RE_UNFINISHED
                       (take (length (strip raw) - length UNFINISHED) (strip raw)) of
                  None \<Rightarrow> Inl AssertionError
                | Some m \<Rightarrow>
                    Inr (ctx\<lparr>pending_calls := (pending_calls ctx)
                           ((group m 1, group m 2) \<mapsto>
                              take (length (strip raw) - length UNFINISHED) (strip raw))\<rparr>))
             else if re_match RE_UNAVAILABLE (strip raw) \<noteq> None then Inr ctx
             else
               (case re_match RE_RESUMED (strip raw) of
                  Some m \<Rightarrow>
                    (case pending_calls ctx (group m 1, group m 2) of
                       None \<Rightarrow> Inl KeyError
                     | Some pending \<Rightarrow>
                         strace_dispatch fs blacklist
                           (ctx\<lparr>pending_calls := (pending_calls ctx)((group m 1, group m 2) := None)\<rparr>)
                           (pending @ group m 3))
                | None \<Rightarrow> strace_dispatch fs blacklist ctx (strip raw))))"

text \<open>
  \<^verbatim>\<open>parse_log\<close>: a fresh context reads the lines of the log in order; the first exception
  ends the parse. The result is the image of the two sets under \<^verbatim>\<open>os.path.realpath\<close>.
\<close>

definition strace_init :: strace_context where
  "strace_init = \<lparr>files = {}, non_existent = {}, cwd = Map.empty, pending_calls = Map.empty\<rparr>"

fun strace_lines ::
  "filesystem \<Rightarrow> (string \<Rightarrow> bool) \<Rightarrow> strace_context \<Rightarrow> string list \<Rightarrow> error + strace_context" where
  "strace_lines fs blacklist ctx [] = Inr ctx"
| "strace_lines fs blacklist ctx (line # rest) =
     (case strace_on_line fs blacklist ctx line of
        Inl e \<Rightarrow> Inl e
      | Inr ctx' \<Rightarrow> strace_lines fs blacklist ctx' rest)"

definition strace_parse_log ::
  "filesystem \<Rightarrow> (string \<Rightarrow> bool) \<Rightarrow> string list \<Rightarrow> error + (string set \<times> string set)" where
  "strace_parse_log fs blacklist log =
     (case strace_lines fs blacklist strace_init log of
        Inl e \<Rightarrow> Inl e
      | Inr ctx \<Rightarrow> Inr (realpath fs ` files ctx, realpath fs ` non_existent ctx))"

section \<open>The dtrace parser\<close>

text \<open>The patterns of \<^verbatim>\<open>Dtrace._Context\<close>.\<close>

text \<open>\<^verbatim>\<open>RE_HEADER = ^\d+ (\d+):(\d+) ([a-zA-Z_\-]+)\((.*?)\) = (.+)$\<close>\<close>
definition DTRACE_RE_HEADER :: "atom list" where
  "DTRACE_RE_HEADER = [Rep cls_d 1 True False, Lit '' '', Rep cls_d 1 True True, Lit '':'',
     Rep cls_d 1 True True, Lit '' '', Rep cls_name 1 True True, Lit ''('',
     Rep cls_dot 0 False True, Lit '') = '', Rep cls_dot 1 True True, Eol]"

text \<open>\<^verbatim>\<open>RE_OPEN = ^\"(.+?)\", (\d+), (\d+)$\<close>; \<^verbatim>\<open>RE_CHDIR\<close> and \<^verbatim>\<open>RE_RENAME\<close> are
  those of the strace parser.\<close>
definition DTRACE_RE_OPEN :: "atom list" where
  "DTRACE_RE_OPEN = [Lit [CHR 0x22], Rep cls_dot 1 False True, Lit (CHR 0x22 # '', ''),
     Rep cls_d 1 True True, Lit '', '', Rep cls_d 1 True True, Eol]"

definition O_DIRECTORY :: int where
  "O_DIRECTORY = 0x100000"

text \<open>\<^verbatim>\<open>handle_proc_start\<close>: the child inherits the cwd of its parent.\<close>

definition dtrace_handle_proc_start :: "trace_context \<Rightarrow> int \<Rightarrow> int \<Rightarrow> string \<Rightarrow> error + trace_context" where
  "dtrace_handle_proc_start ctx ppid pid result =
     (if result \<noteq> ''0'' then Inl AssertionError
      else
        (case cwd ctx ppid of
           None \<Rightarrow> Inl KeyError
         | Some inherited \<Rightarrow> Inr (ctx\<lparr>cwd := (cwd ctx)(pid \<mapsto> inherited)\<rparr>)))"

definition dtrace_handle_proc_exit :: "trace_context \<Rightarrow> int \<Rightarrow> error + trace_context" where
  "dtrace_handle_proc_exit ctx pid =
     (case cwd ctx pid of
        None \<Rightarrow> Inl KeyError
      | Some _ \<Rightarrow> Inr (ctx\<lparr>cwd := (cwd ctx)(pid := None)\<rparr>))"

definition dtrace_handle_chdir :: "trace_context \<Rightarrow> int \<Rightarrow> string \<Rightarrow> string \<Rightarrow> error + trace_context" where
  "dtrace_handle_chdir ctx pid args result =
     (if startswith result ''0'' then
        (case re_match RE_CHDIR args of
           None \<Rightarrow> Inl AttributeError
         | Some m \<Rightarrow>
             if \<not> startswith (group m 1) ''/'' then
               (case cwd ctx pid of
                  None \<Rightarrow> Inl KeyError
                | Some previous \<Rightarrow> Inr (ctx\<lparr>cwd := (cwd ctx)(pid \<mapsto> join previous (group m 1))\<rparr>))
             else Inr (ctx\<lparr>cwd := (cwd ctx)(pid \<mapsto> group m 1)\<rparr>))
      else Inl AssertionError)"

text \<open>\<^verbatim>\<open>_handle_file\<close>: as for strace, but a result starting with \<^verbatim>\<open>-1\<close> or \<^verbatim>\<open>2\<close> is
  dropped, the path is normalised, and a directory is dropped.\<close>

definition dtrace_handle_file ::
  "filesystem \<Rightarrow> (string \<Rightarrow> bool) \<Rightarrow> trace_context \<Rightarrow> int \<Rightarrow> string \<Rightarrow> string \<Rightarrow> error + trace_context" where
  "dtrace_handle_file fs blacklist ctx pid filepath result =
     (if startswith result ''-1'' \<or> startswith result ''2'' then Inr ctx
      else
        (case (if \<not> startswith filepath ''/''
               then (case cwd ctx pid of None \<Rightarrow> Inl KeyError | Some d \<Rightarrow> Inr (join d filepath))
               else Inr filepath) of
           Inl e \<Rightarrow> Inl e
         | Inr joined \<Rightarrow>
             if blacklist (normpath joined) then Inr ctx
             else if normpath joined \<notin> files ctx \<and> normpath joined \<notin> non_existent ctx
                     \<and> \<not> isdir fs (normpath joined) then
               (if isfile fs (normpath joined)
                then Inr (ctx\<lparr>files := insert (normpath joined) (files ctx)\<rparr>)
                else Inr (ctx\<lparr>non_existent := insert (normpath joined) (non_existent ctx)\<rparr>))
             else Inr ctx))"

text \<open>\<^verbatim>\<open>handle_open\<close>, to which \<^verbatim>\<open>handle_open_nocancel\<close> forwards: an open with the
  \<^verbatim>\<open>O_DIRECTORY\<close> bit set is dropped.\<close>

definition dtrace_handle_open ::
  "filesystem \<Rightarrow> (string \<Rightarrow> bool) \<Rightarrow> trace_context \<Rightarrow> int \<Rightarrow> string \<Rightarrow> string \<Rightarrow> error + trace_context" where
  "dtrace_handle_open fs blacklist ctx pid args result =
     (case re_match DTRACE_RE_OPEN args of
        None \<Rightarrow> Inl AttributeError
      | Some groups \<Rightarrow>
          if O_DIRECTORY AND int_of_digits (groups ! 1) = O_DIRECTORY then Inr ctx
          else dtrace_handle_file fs blacklist ctx pid (groups ! 0) result)"

definition dtrace_handle_open_nocancel ::
  "filesystem \<Rightarrow> (string \<Rightarrow> bool) \<Rightarrow> trace_context \<Rightarrow> int \<Rightarrow> string \<Rightarrow> string \<Rightarrow> error + trace_context" where
  "dtrace_handle_open_nocancel fs blacklist ctx pid args result =
     dtrace_handle_open fs blacklist ctx pid args result"

definition dtrace_handle_rename ::
  "filesystem \<Rightarrow> (string \<Rightarrow> bool) \<Rightarrow> trace_context \<Rightarrow> int \<Rightarrow> string \<Rightarrow> string \<Rightarrow> error + trace_context" where
  "dtrace_handle_rename fs blacklist ctx pid args result =
     (case re_match RE_RENAME args of
        None \<Rightarrow> Inl AttributeError
      | Some groups \<Rightarrow>
          (case dtrace_handle_file fs blacklist ctx pid (groups ! 0) result of
             Inl e \<Rightarrow> Inl e
           | Inr ctx' \<Rightarrow> dtrace_handle_file fs blacklist ctx' pid (groups ! 1) result))"

text \<open>The names for which \<^verbatim>\<open>Dtrace._Context\<close> has a \<^verbatim>\<open>handle_\<close> method.\<close>

definition dtrace_handlers :: "string list" where
  "dtrace_handlers = [''chdir'', ''dtrace_BEGIN'', ''open'', ''open_nocancel'', ''proc_exit'',
     ''proc_start'', ''rename'']"

text \<open>
  \<^verbatim>\<open>on_line\<close>: the line, read with its newline, must match \<^verbatim>\<open>RE_HEADER\<close>;
  \<^verbatim>\<open>getattr(self, 'handle_%s' % m.group(3).replace('-', '_'), self._handle_ignored)\<close> is
  called. \<^verbatim>\<open>handle_dtrace_BEGIN\<close> does nothing and \<^verbatim>\<open>_handle_ignored\<close>, the default, only
  logs.
\<close>

definition dtrace_on_line ::
  "filesystem \<Rightarrow> (string \<Rightarrow> bool) \<Rightarrow> trace_context \<Rightarrow> string \<Rightarrow> error + trace_context" where
  "dtrace_on_line fs blacklist ctx line =
     (case re_match DTRACE_RE_HEADER line of
        None \<Rightarrow> Inl AssertionError
      | Some m \<Rightarrow>
          if replace_dash (group m 3) = ''dtrace_BEGIN'' then Inr ctx
          else if replace_dash (group m 3) = ''proc_start''
            then dtrace_handle_proc_start ctx (int_of_digits (group m 1)) (int_of_digits (group m 2))
                   (group m 5)
          else if replace_dash (group m 3) = ''proc_exit''
            then dtrace_handle_proc_exit ctx (int_of_digits (group m 2))
          else if replace_dash (group m 3) = ''chdir''
            then dtrace_handle_chdir ctx (int_of_digits (group m 2)) (group m 4) (group m 5)
          else if replace_dash (group m 3) = ''open_nocancel''
            then dtrace_handle_open_nocancel fs blacklist ctx (int_of_digits (group m 2)) (group m 4)
                   (group m 5)
          else if replace_dash (group m 3) = ''open''
            then dtrace_handle_open fs blacklist ctx (int_of_digits (group m 2)) (group m 4) (group m 5)
          else if replace_dash (group m 3) = ''rename''
            then dtrace_handle_rename fs blacklist ctx (int_of_digits (group m 2)) (group m 4) (group m 5)
          else Inr ctx)"

definition dtrace_init :: trace_context where
  "dtrace_init = \<lparr>files = {}, non_existent = {}, cwd = Map.empty\<rparr>"

fun dtrace_lines ::
  "filesystem \<Rightarrow> (string \<Rightarrow> bool) \<Rightarrow> trace_context \<Rightarrow> string list \<Rightarrow> error + trace_context" where
  "dtrace_lines fs blacklist ctx [] = Inr ctx"
| "dtrace_lines fs blacklist ctx (line # rest) =
     (case dtrace_on_line fs blacklist ctx line of
        Inl e \<Rightarrow> Inl e
      | Inr ctx' \<Rightarrow> dtrace_lines fs blacklist ctx' rest)"

definition dtrace_parse_log ::
  "filesystem \<Rightarrow> (string \<Rightarrow> bool) \<Rightarrow> string list \<Rightarrow> error + (string set \<times> string set)" where
  "dtrace_parse_log fs blacklist log =
     (case dtrace_lines fs blacklist dtrace_init log of
        Inl e \<Rightarrow> Inl e
      | Inr ctx \<Rightarrow> Inr (realpath fs ` files ctx, realpath fs ` non_existent ctx))"

section \<open>The ETW parser\<close>

text \<open>
  \<^verbatim>\<open>LogmanTrace._Context\<close> reads the rows that the \<^verbatim>\<open>csv\<close> reader yields; a row is the list
  of its cells. Strings are bytes here, so \<^verbatim>\<open>lower\<close> is the lowercase of ASCII letters. The
  table \<^verbatim>\<open>DosDriveMap._MAPPING\<close>, filled from the operating system when the context is
  created, is the parameter \<open>mapping\<close>.
\<close>

definition lower :: "string \<Rightarrow> string" where
  "lower s = map (\<lambda>c. if cls_upper c then char_of (of_char c + (32::nat)) else c) s"

definition cls_alnum :: "char \<Rightarrow> bool" where
  "cls_alnum c = ((CHR ''a'' \<le> c \<and> c \<le> CHR ''z'') \<or> cls_upper c \<or> cls_d c)"

definition cls_xdigit :: "char \<Rightarrow> bool" where
  "cls_xdigit c = (cls_d c \<or> (CHR ''a'' \<le> c \<and> c \<le> CHR ''f'') \<or> (CHR ''A'' \<le> c \<and> c \<le> CHR ''F''))"

definition xdigit_val :: "char \<Rightarrow> int" where
  "xdigit_val c =
     (if cls_d c then int (of_char c) - 48
      else if CHR ''a'' \<le> c \<and> c \<le> CHR ''f'' then int (of_char c) - 87
      else int (of_char c) - 55)"

text \<open>\<^verbatim>\<open>int(s, 16)\<close>: surrounding whitespace, one sign and one \<^verbatim>\<open>0x\<close> prefix are accepted;
  anything else than hexadecimal digits raises \<open>ValueError\<close> (here \<open>None\<close>).\<close>

definition hex_digits :: "string \<Rightarrow> int option" where
  "hex_digits s =
     (let t = (if startswith s ''0x'' \<or> startswith s ''0X'' then drop 2 s else s)
      in if t \<noteq> [] \<and> list_all cls_xdigit t
         then Some (foldl (\<lambda>n c. 16 * n + xdigit_val c) 0 t) else None)"

definition py_int16 :: "string \<Rightarrow> int option" where
  "py_int16 s =
     (case strip s of
        [] \<Rightarrow> None
      | c # r \<Rightarrow>
          if c = CHR ''-'' then map_option uminus (hex_digits r)
          else if c = CHR ''+'' then hex_digits r
          else hex_digits (c # r))"

text \<open>
  \<^verbatim>\<open>DosDriveMap.to_dos\<close>, with the pattern \<^verbatim>\<open>(^\\Device\\[a-zA-Z0-9]+)(\\.*)?$\<close>. Only the
  longest run of letters and digits can be followed by a backslash or by the end of the
  string, so the optional second group is tried on that run alone: first present
  (\<open>TO_DOS_TAIL\<close>), then absent (\<open>TO_DOS_BARE\<close>). A path that does not match, or whose
  device is not in the table, is \<^verbatim>\<open>assert False\<close>.
\<close>

definition TO_DOS_TAIL :: "atom list" where
  "TO_DOS_TAIL = [Lit (CHR 0x5C # ''Device'' @ [CHR 0x5C]), Rep cls_alnum 1 True True,
     Lit [CHR 0x5C], Rep cls_dot 0 True True, Eol]"

definition TO_DOS_BARE :: "atom list" where
  "TO_DOS_BARE = [Lit (CHR 0x5C # ''Device'' @ [CHR 0x5C]), Rep cls_alnum 1 True True, Eol]"

definition to_dos :: "(string \<rightharpoonup> string) \<Rightarrow> string \<Rightarrow> error + string" where
  "to_dos mapping path =
     (case re_match TO_DOS_TAIL path of
        Some m \<Rightarrow>
          (case mapping (CHR 0x5C # ''Device'' @ [CHR 0x5C] @ group m 1) of
             None \<Rightarrow> Inl AssertionError
           | Some drive \<Rightarrow> Inr (drive @ [CHR 0x5C] @ group m 2))
      | None \<Rightarrow>
          (case re_match TO_DOS_BARE path of
             Some m \<Rightarrow>
               (case mapping (CHR 0x5C # ''Device'' @ [CHR 0x5C] @ group m 1) of
                  None \<Rightarrow> Inl AssertionError
                | Some drive \<Rightarrow> Inr drive)
           | None \<Rightarrow> Inl AssertionError))"

text \<open>\<^verbatim>\<open>_handle_file\<close>: a blacklisted path, a directory and a path already seen are dropped.\<close>

definition logman_handle_file ::
  "filesystem \<Rightarrow> (string \<Rightarrow> bool) \<Rightarrow> logman_context \<Rightarrow> string \<Rightarrow> logman_context" where
  "logman_handle_file fs blacklist ctx filename =
     (if blacklist filename \<or> isdir fs filename \<or> filename \<in> files ctx
         \<or> filename \<in> non_existent ctx then ctx
      else if isfile fs filename then ctx\<lparr>files := insert filename (files ctx)\<rparr>
      else ctx\<lparr>non_existent := insert filename (non_existent ctx)\<rparr>)"

text \<open>The columns \<^verbatim>\<open>CHILD_PID\<close>, \<^verbatim>\<open>PARENT_PID\<close>, \<^verbatim>\<open>FILE_PATH\<close> and \<^verbatim>\<open>PROC_NAME\<close>; a row that
  is too short raises \<open>IndexError\<close>.\<close>

definition cell :: "string list \<Rightarrow> nat \<Rightarrow> error + string" where
  "cell line i = (if i < length line then Inr (line ! i) else Inl IndexError)"

text \<open>\<^verbatim>\<open>handle_FileIo_Create\<close>, with the pattern \<^verbatim>\<open>^\"(.+)\"$\<close>.\<close>

definition RE_QUOTED :: "atom list" where
  "RE_QUOTED = [Lit [CHR 0x22], Rep cls_dot 1 True True, Lit [CHR 0x22], Eol]"

definition handle_FileIo_Create ::
  "filesystem \<Rightarrow> (string \<Rightarrow> bool) \<Rightarrow> (string \<rightharpoonup> string) \<Rightarrow> logman_context \<Rightarrow> string list
     \<Rightarrow> error + logman_context" where
  "handle_FileIo_Create fs blacklist mapping ctx line =
     (case cell line 25 of
        Inl e \<Rightarrow> Inl e
      | Inr file_path \<Rightarrow>
          (case re_match RE_QUOTED file_path of
             None \<Rightarrow> Inl AttributeError
           | Some m \<Rightarrow>
               (case to_dos mapping (group m 1) of
                  Inl e \<Rightarrow> Inl e
                | Inr dos \<Rightarrow> Inr (logman_handle_file fs blacklist ctx (lower dos)))))"

text \<open>\<^verbatim>\<open>handle_Process_DCStart\<close>: the parent of \<^verbatim>\<open>logman.exe\<close> is the tracing process.\<close>

definition handle_Process_DCStart :: "logman_context \<Rightarrow> string list \<Rightarrow> error + logman_context" where
  "handle_Process_DCStart ctx line =
     (case cell line 21 of
        Inl e \<Rightarrow> Inl e
      | Inr parent \<Rightarrow>
          (case py_int16 parent of
             None \<Rightarrow> Inl ValueError
           | Some ppid \<Rightarrow>
               (case cell line 26 of
                  Inl e \<Rightarrow> Inl e
                | Inr proc_name \<Rightarrow>
                    if proc_name = CHR 0x22 # ''logman.exe'' @ [CHR 0x22]
                    then Inr (ctx\<lparr>processes := insert ppid (processes ctx)\<rparr>)
                    else Inr ctx)))"

text \<open>\<^verbatim>\<open>handle_Process_End\<close> and \<^verbatim>\<open>handle_Process_Start\<close>; \<open>pid\<close> is the cell \<^verbatim>\<open>PID\<close>,
  already converted from hexadecimal by \<^verbatim>\<open>on_csv_line\<close>.\<close>

definition handle_Process_End :: "logman_context \<Rightarrow> int \<Rightarrow> error + logman_context" where
  "handle_Process_End ctx pid =
     (if pid \<in> processes ctx then Inr (ctx\<lparr>processes := processes ctx - {pid}\<rparr>) else Inr ctx)"

definition handle_Process_Start :: "logman_context \<Rightarrow> string list \<Rightarrow> int \<Rightarrow> error + logman_context" where
  "handle_Process_Start ctx line ppid =
     (case cell line 20 of
        Inl e \<Rightarrow> Inl e
      | Inr child \<Rightarrow>
          (case py_int16 child of
             None \<Rightarrow> Inl ValueError
           | Some pid \<Rightarrow>
               if ppid \<in> processes ctx then
                 (case cell line 26 of
                    Inl e \<Rightarrow> Inl e
                  | Inr proc_name \<Rightarrow>
                      if proc_name = CHR 0x22 # ''logman.exe'' @ [CHR 0x22] then Inr ctx
                      else Inr (ctx\<lparr>processes := insert pid (processes ctx)\<rparr>))
               else Inr ctx))"

text \<open>The names for which the class has a \<^verbatim>\<open>handle_\<close> method, and the call of one of them.
  All but four do nothing.\<close>

definition logman_handlers :: "string list" where
  "logman_handlers = [''EventTrace_Any'', ''FileIo_Any'', ''FileIo_Create'', ''FileIo_Rename'',
     ''Image_Any'', ''Image_DCStart'', ''Image_Load'', ''Process_Any'', ''Process_DCStart'',
     ''Process_End'', ''Process_Start'', ''SystemConfig_Any'']"

definition logman_call ::
  "filesystem \<Rightarrow> (string \<Rightarrow> bool) \<Rightarrow> (string \<rightharpoonup> string) \<Rightarrow> string \<Rightarrow> logman_context \<Rightarrow> string list
     \<Rightarrow> int \<Rightarrow> error + logman_context" where
  "logman_call fs blacklist mapping name ctx line pid =
     (if name = ''FileIo_Create'' then handle_FileIo_Create fs blacklist mapping ctx line
      else if name = ''Process_DCStart'' then handle_Process_DCStart ctx line
      else if name = ''Process_End'' then handle_Process_End ctx pid
      else if name = ''Process_Start'' then handle_Process_Start ctx line pid
      else Inr ctx)"

text \<open>The header row and the columns that \<^verbatim>\<open>on_csv_line\<close> asserts, in the order of the
  assertions, each with the values it accepts.\<close>

definition CSV_HEADER :: "string list" where
  "CSV_HEADER = [''Event Name'', ''Type'', ''Event ID'', ''Version'', ''Channel'', ''Level'',
     ''Opcode'', ''Task'', ''Keyword'', ''PID'', ''TID'', ''Processor Number'', ''Instance ID'',
     ''Parent Instance ID'', ''Activity ID'', ''Related Activity ID'', ''Clock-Time'',
     ''Kernel(ms)'', ''User(ms)'', ''User Data'']"

definition CSV_ASSERTED :: "(nat \<times> string list) list" where
  "CSV_ASSERTED = [(2, [''0'']), (3, [''2'', ''3'']), (4, [''0'']), (5, [''0'']), (7, [''0'']),
     (8, [''0x0000000000000000'']), (12, ['''']), (13, ['''']),
     (14, [''{00000000-0000-0000-0000-000000000000}'']), (15, [''''])]"

fun check_columns :: "(nat \<times> string list) list \<Rightarrow> string list \<Rightarrow> error option" where
  "check_columns [] line = None"
| "check_columns ((i, accepted) # rest) line =
     (if \<not> i < length line then Some IndexError
      else if line ! i \<notin> set accepted then Some AssertionError
      else check_columns rest line)"

text \<open>
  \<^verbatim>\<open>on_csv_line\<close>: the first row must be the header; later rows are checked, rows of GUID
  events are skipped, and the handler \<^verbatim>\<open>handle_<Event Name>_<Type>\<close>, or else
  \<^verbatim>\<open>handle_<Event Name>_Any\<close>, is called; a row with neither is \<^verbatim>\<open>assert False\<close>.
\<close>

definition on_csv_line ::
  "filesystem \<Rightarrow> (string \<Rightarrow> bool) \<Rightarrow> (string \<rightharpoonup> string) \<Rightarrow> logman_context \<Rightarrow> string list
     \<Rightarrow> error + logman_context" where
  "on_csv_line fs blacklist mapping ctx row =
     (if \<not> first_line ctx then
        (if map strip row = CSV_HEADER then Inr (ctx\<lparr>first_line := True\<rparr>)
         else Inl AssertionError)
      else
        (case check_columns CSV_ASSERTED (map strip row) of
           Some e \<Rightarrow> Inl e
         | None \<Rightarrow>
             if startswith (map strip row ! 0) ''{'' then Inr ctx
             else
               (case py_int16 (map strip row ! 9) of
                  None \<Rightarrow> Inl ValueError
                | Some pid \<Rightarrow>
                    if (map strip row ! 0) @ ''_'' @ (map strip row ! 1) \<in> set logman_handlers
                    then logman_call fs blacklist mapping
                           ((map strip row ! 0) @ ''_'' @ (map strip row ! 1)) ctx (map strip row) pid
                    else if (map strip row ! 0) @ ''_Any'' \<in> set logman_handlers
                    then logman_call fs blacklist mapping
                           ((map strip row ! 0) @ ''_Any'') ctx (map strip row) pid
                    else Inl AssertionError)))"

text \<open>\<^verbatim>\<open>parse_log\<close>, from the rows of the log on.\<close>

definition logman_init :: logman_context where
  "logman_init = \<lparr>files = {}, non_existent = {}, processes = {}, first_line = False\<rparr>"

fun logman_rows ::
  "filesystem \<Rightarrow> (string \<Rightarrow> bool) \<Rightarrow> (string \<rightharpoonup> string) \<Rightarrow> logman_context \<Rightarrow> string list list
     \<Rightarrow> error + logman_context" where
  "logman_rows fs blacklist mapping ctx [] = Inr ctx"
| "logman_rows fs blacklist mapping ctx (row # rest) =
     (case on_csv_line fs blacklist mapping ctx row of
        Inl e \<Rightarrow> Inl e
      | Inr ctx' \<Rightarrow> logman_rows fs blacklist mapping ctx' rest)"

definition logman_parse_log ::
  "filesystem \<Rightarrow> (string \<Rightarrow> bool) \<Rightarrow> (string \<rightharpoonup> string) \<Rightarrow> string list list
     \<Rightarrow> error + (string set \<times> string set)" where
  "logman_parse_log fs blacklist mapping log =
     (case logman_rows fs blacklist mapping logman_init log of
        Inl e \<Rightarrow> Inl e
      | Inr ctx \<Rightarrow> Inr (realpath fs ` files ctx, realpath fs ` non_existent ctx))"

section \<open>The orchestrator's blacklist\<close>

text \<open>
  The predicate \<^verbatim>\<open>blacklist\<close> that \<^verbatim>\<open>trace_inputs\<close> builds from the \<^verbatim>\<open>IGNORED\<close>
  prefixes of the tracer and passes to \<^verbatim>\<open>parse_log\<close>.
\<close>

definition blacklist :: "string list \<Rightarrow> string \<Rightarrow> bool" where
  "blacklist ignored f =
     (list_ex (startswith f) ignored \<or> endswith f ''.pyc'' \<or> contains f ''/.git/''
      \<or> contains f ''/.svn/'')"

definition STRACE_IGNORED :: "string list" where
  "STRACE_IGNORED = [''/bin'', ''/dev'', ''/etc'', ''/lib'', ''/proc'', ''/sys'', ''/tmp'',
     ''/usr'', ''/var'']"

definition DTRACE_IGNORED :: "string list" where
  "DTRACE_IGNORED = [''/.vol'', ''/Library'', ''/System'', ''/dev'', ''/etc'', ''/private/var'',
     ''/tmp'', ''/usr'', ''/var'']"

section \<open>A concrete filesystem and concrete logs\<close>

text \<open>
  A filesystem without symbolic links, on which \<^verbatim>\<open>realpath\<close> of an absolute path is
  \<^verbatim>\<open>normpath\<close>: the directory \<^verbatim>\<open>/r\<close> holds the regular file \<^verbatim>\<open>a\<close>, the directory
  \<^verbatim>\<open>d\<close> with the regular files \<^verbatim>\<open>x\<close> and \<^verbatim>\<open>y\<close>, and the empty directory \<^verbatim>\<open>e\<close>.
\<close>

definition fs_r :: filesystem where
  "fs_r = \<lparr>isfile = (\<lambda>p. p = ''/r/a'' \<or> p = ''/r/d/x'' \<or> p = ''/r/d/y''),
           isdir = (\<lambda>p. p = ''/'' \<or> p = ''/r'' \<or> p = ''/r/d'' \<or> p = ''/r/e''),
           realpath = normpath,
           listdir = (\<lambda>p. if p = ''/r'' \<or> p = ''/r/'' then Some [''a'', ''d'', ''e'']
                          else if p = ''/r/d'' \<or> p = ''/r/d/'' then Some [''x'', ''y'']
                          else if p = ''/r/e'' \<or> p = ''/r/e/'' then Some []
                          else None)\<rparr>"

text \<open>
  A strace log in which the process opens \<^verbatim>\<open>a\<close> once directly and once through a
  temporary directory \<^verbatim>\<open>t\<close> that is gone when the log is parsed.
\<close>

definition strace_log_tmpdir :: "string list" where
  "strace_log_tmpdir =
     [''1 chdir(\"/r\") = 0'' @ [CHR 0x0A],
      ''1 open(\"a\", O_RDONLY) = 3'' @ [CHR 0x0A],
      ''1 open(\"t/../a\", O_RDONLY) = 4'' @ [CHR 0x0A]]"

text \<open>A strace log and a dtrace log that touch \<^verbatim>\<open>/r/a\<close> and the missing \<^verbatim>\<open>/r/b\<close>.\<close>

definition strace_log_plain :: "string list" where
  "strace_log_plain =
     [''1 chdir(\"/r\") = 0'' @ [CHR 0x0A],
      ''1 open(\"a\", O_RDONLY) = 3'' @ [CHR 0x0A],
      ''1 open(\"/r/b\", O_RDONLY) = 4'' @ [CHR 0x0A]]"

definition dtrace_log_plain :: "string list" where
  "dtrace_log_plain =
     [''0 1:2 chdir(\"/r\") = 0'' @ [CHR 0x0A],
      ''1 0:2 dtrace_BEGIN() = 0'' @ [CHR 0x0A],
      ''2 1:2 open(\"a\", 0, 0) = 0'' @ [CHR 0x0A],
      ''3 1:2 open_nocancel(\"/r/b\", 0, 0) = 0'' @ [CHR 0x0A]]"

text \<open>
  A Windows filesystem with the regular file \<^verbatim>\<open>c:\r\a\<close> in the directory \<^verbatim>\<open>c:\r\<close>, the
  device table of a machine whose first volume is drive \<^verbatim>\<open>C:\<close>, and an ETW log (the header
  row, then three \<^verbatim>\<open>FileIo\<close> \<^verbatim>\<open>Create\<close> rows of process \<^verbatim>\<open>0x10\<close>) that touches the file, the
  missing \<^verbatim>\<open>c:\r\b\<close> and the directory.
\<close>

definition fs_win :: filesystem where
  "fs_win = \<lparr>isfile = (\<lambda>p. p = ''c:'' @ [CHR 0x5C] @ ''r'' @ [CHR 0x5C] @ ''a''),
             isdir = (\<lambda>p. p = ''c:'' @ [CHR 0x5C] @ ''r''),
             realpath = (\<lambda>p. p), listdir = (\<lambda>p. None)\<rparr>"

definition etw_mapping :: "string \<rightharpoonup> string" where
  "etw_mapping = [CHR 0x5C # ''Device'' @ [CHR 0x5C] @ ''HarddiskVolume1'' \<mapsto> ''C:'']"

definition etw_row :: "string \<Rightarrow> string \<Rightarrow> string \<Rightarrow> string list \<Rightarrow> string list" where
  "etw_row event type pid user_data =
     [event, type, ''0'', ''2'', ''0'', ''0'', ''0'', ''0'', ''0x0000000000000000'', pid, ''0x0'',
      ''0'', '''', '''', ''{00000000-0000-0000-0000-000000000000}'', '''', ''1'', ''0'', ''0'']
     @ user_data"

definition etw_create :: "string \<Rightarrow> string list" where
  "etw_create path =
     etw_row ''FileIo'' '' Create'' ''0x10''
       [''0'', ''0'', ''0'', ''0'', ''0'', ''0'',
        CHR 0x22 # CHR 0x5C # ''Device'' @ [CHR 0x5C] @ ''HarddiskVolume1'' @ [CHR 0x5C] @ path
          @ [CHR 0x22]]"

definition etw_log :: "string list list" where
  "etw_log =
     [map (\<lambda>c. '' '' @ c) CSV_HEADER,
      etw_create (''R'' @ [CHR 0x5C] @ ''A''),
      etw_create (''r'' @ [CHR 0x5C] @ ''b''),
      etw_create ''r'']"

section \<open>Theorems\<close>

lemma contains_char: "contains s [c] \<longleftrightarrow> c \<in> set s"
  by (induction s) (auto simp: startswith_def)

lemma endswith_char: "endswith s [c] \<longleftrightarrow> s \<noteq> [] \<and> last s = c"
proof (cases s rule: rev_cases)
  case Nil
  then show ?thesis by (simp add: endswith_def)
next
  case (snoc ys y)
  then show ?thesis by (auto simp: endswith_def)
qed

text \<open>
  C8. The tracked list holds exactly the rebased paths that neither end with \<open>/\<close> nor
  contain a space, the untracked list exactly those that end with \<open>/\<close> or contain a
  space, and every rebased path (with its multiplicity) lands in exactly one of the two.
\<close>

theorem partition_tracked_untracked:
  "set (tracked corrected) = {f \<in> set corrected. \<not> endswith f ''/'' \<and> CHR '' '' \<notin> set f}
   \<and> set (untracked corrected) = {f \<in> set corrected. endswith f ''/'' \<or> CHR '' '' \<in> set f}
   \<and> set (tracked corrected) \<inter> set (untracked corrected) = {}
   \<and> set (tracked corrected) \<union> set (untracked corrected) = set corrected
   \<and> (\<forall>f. count_list (tracked corrected) f + count_list (untracked corrected) f
          = count_list corrected f)"
proof -
  have c: "count_list (filter P xs) f + count_list (filter (\<lambda>x. \<not> P x) xs) f = count_list xs f"
    for P and xs :: "string list" and f
    by (induction xs) auto
  have "count_list (tracked corrected) f + count_list (untracked corrected) f
          = count_list corrected f" for f
    using c [of "\<lambda>f. \<not> endswith f ''/'' \<and> \<not> contains f '' ''" corrected f]
    by (simp add: tracked_def untracked_def)
  then show ?thesis
    by (auto simp: tracked_def untracked_def contains_char)
qed

theorem partition_tracked_untracked_witness:
  "tracked [''a.py'', ''files1/'', ''b c.txt'', ''../d''] = [''a.py'', ''../d'']
   \<and> untracked [''a.py'', ''files1/'', ''b c.txt'', ''../d''] = [''files1/'', ''b c.txt'']"
  using partition_tracked_untracked [of "[''a.py'', ''files1/'', ''b c.txt'', ''../d'']"]
  by (simp add: tracked_def untracked_def endswith_def startswith_def)

subsection \<open>relevant_files\<close>

lemma startswith_drop_empty: "startswith f root \<and> drop (length root) f = [] \<longleftrightarrow> f = root"
  by (auto simp: startswith_def)

lemma relevant_files_loop_eq:
  "relevant_files_loop paths root e u =
     (if root \<in> set paths then Inl AssertionError
      else Inr (e @ map (drop (length root)) (filter (\<lambda>f. startswith f root) paths),
                u @ filter (\<lambda>f. \<not> startswith f root) paths))"
proof (induction paths arbitrary: e u)
  case Nil
  show ?case by simp
next
  case (Cons f paths)
  show ?case using startswith_drop_empty [of f root]
    by (auto simp: Cons.IH)
qed

lemma sorted_set_props:
  "set (sorted_set xs) = set xs" "sorted (sorted_set xs)" "distinct (sorted_set xs)"
  by (simp_all add: sorted_set_def)

text \<open>
  C4 (as stated, refuted). A path equal to the root is an absolute path that starts with
  the root; its remainder is empty and \<^verbatim>\<open>assert f\<close> fails: nothing is returned.
\<close>

theorem relevant_files_root_counterexample:
  "relevant_files [''/r/a'', ''/r/''] ''/r/'' = Inl AssertionError"
  by (simp add: relevant_files_def startswith_def)

text \<open>
  C4 (amended). When no path equals the root, \<^verbatim>\<open>relevant_files\<close> returns
  \<open>(expected, unexpected)\<close>: \<open>expected\<close> is exactly the set of remainders
  \<open>p[len(root):]\<close> of the paths that start with the root, \<open>unexpected\<close> exactly the
  other paths, and both lists are sorted and free of duplicates. When some path equals the
  root the call fails with an assertion error. The model is a pure function of the input
  list, which the source only iterates.
\<close>

theorem relevant_files_partition:
  "(root \<in> set paths \<longrightarrow> relevant_files paths root = Inl AssertionError)
   \<and> (root \<notin> set paths \<longrightarrow>
        (\<exists>expected unexpected.
           relevant_files paths root = Inr (expected, unexpected)
           \<and> set expected = {drop (length root) p | p. p \<in> set paths \<and> startswith p root}
           \<and> set unexpected = {p \<in> set paths. \<not> startswith p root}
           \<and> sorted expected \<and> distinct expected
           \<and> sorted unexpected \<and> distinct unexpected))"
  by (auto simp: relevant_files_def relevant_files_loop_eq sorted_set_props)

theorem relevant_files_partition_witness:
  "''/r/'' \<notin> set [''/r/b'', ''/x/c'', ''/r/a'', ''/r/b'']
   \<and> relevant_files [''/r/b'', ''/x/c'', ''/r/a'', ''/r/b''] ''/r/'' = Inr ([''a'', ''b''], [''/x/c''])
   \<and> sorted [''a'', ''b''] \<and> distinct [''a'', ''b'']"
proof -
  have h: "''/r/'' \<notin> set [''/r/b'', ''/x/c'', ''/r/a'', ''/r/b'']"
    by simp
  have e: "relevant_files [''/r/b'', ''/x/c'', ''/r/a'', ''/r/b''] ''/r/'' = Inr ([''a'', ''b''], [''/x/c''])"
    by (simp add: relevant_files_def sorted_set_def startswith_def)
  obtain expected unexpected where
    r: "relevant_files [''/r/b'', ''/x/c'', ''/r/a'', ''/r/b''] ''/r/'' = Inr (expected, unexpected)"
       "sorted expected" "distinct expected"
    using relevant_files_partition [of "''/r/''" "[''/r/b'', ''/x/c'', ''/r/a'', ''/r/b'']"] h
    by blast
  from r e have "expected = [''a'', ''b'']"
    by simp
  with r h e show ?thesis
    by simp
qed

subsection \<open>posix_relpath\<close>

lemma split_at_nonempty: "split_at c s \<noteq> []"
  by (induction s) (auto split: list.splits)

lemma split_at_no_sep: "x \<in> set (split_at c s) \<Longrightarrow> c \<notin> set x"
proof (induction s arbitrary: x)
  case Nil
  then show ?case by simp
next
  case (Cons a s)
  show ?case
  proof (cases "a = c")
    case True
    with Cons show ?thesis by auto
  next
    case False
    obtain h t where ht: "split_at c s = h # t"
      using split_at_nonempty [of c s] by (cases "split_at c s") auto
    with Cons False show ?thesis by auto
  qed
qed

lemma join_last:
  assumes "b \<noteq> []" and "CHR ''/'' \<notin> set b"
  shows "join a b \<noteq> [] \<and> last (join a b) \<noteq> CHR ''/''"
proof -
  from assms have "last b \<noteq> CHR ''/''"
    using last_in_set by metis
  moreover from assms have "\<not> startswith b ''/''"
    by (cases b) (auto simp: startswith_def)
  ultimately show ?thesis
    using assms by (simp add: join_def)
qed

lemma join_all_last:
  assumes "a \<noteq> []" and "CHR ''/'' \<notin> set a"
    and "\<forall>b \<in> set p. b \<noteq> [] \<and> CHR ''/'' \<notin> set b"
  shows "join_all a p \<noteq> [] \<and> last (join_all a p) \<noteq> CHR ''/''"
  using assms(3)
proof (induction p rule: rev_induct)
  case Nil
  from assms(1,2) show ?case
    using last_in_set by (fastforce simp: join_all_def)
next
  case (snoc b p)
  then show ?case
    using join_last [of b "foldl join a p"] by (simp add: join_all_def)
qed

lemma relpath_no_trailing_slash:
  assumes "relpath getcwd path start = Inr out"
  shows "out \<noteq> [] \<and> last out \<noteq> CHR ''/''"
proof -
  define start_list where
    "start_list = filter (\<lambda>x. x \<noteq> []) (split_at CHR ''/'' (abspath getcwd start))"
  define path_list where
    "path_list = filter (\<lambda>x. x \<noteq> []) (split_at CHR ''/'' (abspath getcwd path))"
  define rel_list where
    "rel_list = replicate (length start_list - length (commonprefix start_list path_list)) ''..''
                @ drop (length (commonprefix start_list path_list)) path_list"
  have comps: "\<forall>b \<in> set rel_list. b \<noteq> [] \<and> CHR ''/'' \<notin> set b"
  proof
    fix b assume "b \<in> set rel_list"
    then consider "b = ''..''" | "b \<in> set path_list"
      unfolding rel_list_def using in_set_dropD by fastforce
    then show "b \<noteq> [] \<and> CHR ''/'' \<notin> set b"
    proof cases
      case 1
      then show ?thesis by simp
    next
      case 2
      then show ?thesis
        unfolding path_list_def using split_at_no_sep by auto
    qed
  qed
  from assms have out: "out = (if rel_list = [] then ''.'' else join_all (hd rel_list) (tl rel_list))"
    unfolding relpath_def Let_def rel_list_def start_list_def path_list_def
    by (auto split: if_splits)
  show ?thesis
  proof (cases "rel_list = []")
    case True
    with out show ?thesis by simp
  next
    case False
    then obtain a p where ap: "rel_list = a # p"
      by (cases rel_list) auto
    with comps have "a \<noteq> []" "CHR ''/'' \<notin> set a" "\<forall>b \<in> set p. b \<noteq> [] \<and> CHR ''/'' \<notin> set b"
      by auto
    from join_all_last [OF this] out ap show ?thesis
      by simp
  qed
qed

text \<open>
  C7. Whenever \<^verbatim>\<open>posix_relpath(p, base)\<close> has a result, the result ends with \<open>/\<close> if and
  only if \<open>p\<close> ends with \<open>/\<close>; it has a result for every non-empty \<open>p\<close>, and the empty
  path (which has no trailing slash) raises \<open>ValueError\<close> in \<^verbatim>\<open>posixpath.relpath\<close>.
\<close>

theorem posix_relpath_trailing_slash:
  "(\<forall>out. posix_relpath getcwd p base = Inr out \<longrightarrow> (endswith out ''/'' \<longleftrightarrow> endswith p ''/''))
   \<and> (p \<noteq> [] \<longrightarrow> (\<exists>out. posix_relpath getcwd p base = Inr out))
   \<and> (p = [] \<longrightarrow> posix_relpath getcwd p base = Inl ValueError)"
proof -
  have ex: "\<exists>r. relpath getcwd p base = Inr r" if "p \<noteq> []"
    using that by (simp add: relpath_def Let_def)
  have "endswith out ''/'' \<longleftrightarrow> endswith p ''/''" if "posix_relpath getcwd p base = Inr out" for out
  proof -
    from that obtain r where r: "relpath getcwd p base = Inr r"
      and out: "out = (if endswith p ''/'' then r @ ''/'' else r)"
      by (auto simp: posix_relpath_def split: sum.splits)
    from relpath_no_trailing_slash [OF r] out show ?thesis
      by (simp add: endswith_char)
  qed
  moreover have "\<exists>out. posix_relpath getcwd p base = Inr out" if "p \<noteq> []"
    using ex [OF that] by (auto simp: posix_relpath_def)
  moreover have "posix_relpath getcwd p base = Inl ValueError" if "p = []"
    using that by (simp add: posix_relpath_def relpath_def)
  ultimately show ?thesis
    by blast
qed

theorem posix_relpath_trailing_slash_witness:
  "posix_relpath ''/home/u'' ''data/isolate/files1/'' ''data/isolate/'' = Inr ''files1/''
   \<and> endswith ''files1/'' ''/'' \<and> endswith ''data/isolate/files1/'' ''/''
   \<and> posix_relpath ''/home/u'' ''isolate.py'' ''data/isolate/'' = Inr ''../../isolate.py''
   \<and> \<not> endswith ''../../isolate.py'' ''/'' \<and> \<not> endswith ''isolate.py'' ''/''"
proof -
  have a: "posix_relpath ''/home/u'' ''data/isolate/files1/'' ''data/isolate/'' = Inr ''files1/''"
    by code_simp
  have b: "posix_relpath ''/home/u'' ''isolate.py'' ''data/isolate/'' = Inr ''../../isolate.py''"
    by code_simp
  have c: "endswith ''data/isolate/files1/'' ''/''" "\<not> endswith ''isolate.py'' ''/''"
    by (simp_all add: endswith_def)
  from posix_relpath_trailing_slash [of "''/home/u''" "''data/isolate/files1/''" "''data/isolate/''"] a c
  have d: "endswith ''files1/'' ''/''"
    by blast
  from posix_relpath_trailing_slash [of "''/home/u''" "''isolate.py''" "''data/isolate/''"] b c
  have e: "\<not> endswith ''../../isolate.py'' ''/''"
    by blast
  from a b c d e show ?thesis
    by simp
qed

subsection \<open>Lines, dispatch and failed chdir\<close>

lemma strace_on_line_plain:
  assumes "re_match RE_SIGNAL (strip raw) = None" "re_match RE_KILLED (strip raw) = None"
    "\<not> endswith (strip raw) UNFINISHED" "re_match RE_UNAVAILABLE (strip raw) = None"
    "re_match RE_RESUMED (strip raw) = None"
  shows "strace_on_line fs bl ctx raw = strace_dispatch fs bl ctx (strip raw)"
  using assms by (simp add: strace_on_line_def)

lemma strace_lines_append:
  "strace_lines fs bl ctx (pre @ rest) =
     (case strace_lines fs bl ctx pre of Inl e \<Rightarrow> Inl e | Inr c \<Rightarrow> strace_lines fs bl c rest)"
  by (induction pre arbitrary: ctx) (auto split: sum.splits)

lemma dtrace_lines_append:
  "dtrace_lines fs bl ctx (pre @ rest) =
     (case dtrace_lines fs bl ctx pre of Inl e \<Rightarrow> Inl e | Inr c \<Rightarrow> dtrace_lines fs bl c rest)"
  by (induction pre arbitrary: ctx) (auto split: sum.splits)

text \<open>
  C9. A chdir record whose result does not start with \<open>0\<close> fails with an assertion error,
  in the strace and in the dtrace parser: in the handler, in the dispatch of the line, and
  for the whole parse, which ends there without a result. An error carries no context: the
  cwd of the process is not updated and the record is not skipped.
\<close>

theorem failed_chdir_is_fatal:
  "(\<not> startswith result ''0'' \<longrightarrow>
      strace_handle_chdir sctx pid args result = Inl AssertionError
      \<and> dtrace_handle_chdir dctx pid args result = Inl AssertionError)
   \<and> (re_match RE_HEADER line = Some m \<and> group m 2 = ''chdir'' \<and> \<not> startswith (group m 4) ''0''
        \<longrightarrow> strace_dispatch fs bl sctx line = Inl AssertionError)
   \<and> (re_match DTRACE_RE_HEADER line = Some m \<and> replace_dash (group m 3) = ''chdir''
        \<and> \<not> startswith (group m 5) ''0''
        \<longrightarrow> dtrace_on_line fs bl dctx line = Inl AssertionError
            \<and> (\<forall>pre post. dtrace_lines fs bl dtrace_init pre = Inr dctx
                  \<longrightarrow> dtrace_parse_log fs bl (pre @ line # post) = Inl AssertionError))
   \<and> (re_match RE_SIGNAL (strip raw) = None \<and> re_match RE_KILLED (strip raw) = None
        \<and> \<not> endswith (strip raw) UNFINISHED \<and> re_match RE_UNAVAILABLE (strip raw) = None
        \<and> re_match RE_RESUMED (strip raw) = None
        \<and> re_match RE_HEADER (strip raw) = Some m \<and> group m 2 = ''chdir''
        \<and> \<not> startswith (group m 4) ''0''
        \<longrightarrow> strace_on_line fs bl sctx raw = Inl AssertionError
            \<and> (\<forall>pre post. strace_lines fs bl strace_init pre = Inr sctx
                  \<longrightarrow> strace_parse_log fs bl (pre @ raw # post) = Inl AssertionError))"
proof -
  have h: "strace_handle_chdir sctx pid args result = Inl AssertionError"
          "dtrace_handle_chdir dctx pid args result = Inl AssertionError"
    if "\<not> startswith result ''0''" for pid args result
    using that by (simp_all add: strace_handle_chdir_def dtrace_handle_chdir_def)
  have sd: "strace_dispatch fs bl sctx l = Inl AssertionError"
    if "re_match RE_HEADER l = Some m" "group m 2 = ''chdir''" "\<not> startswith (group m 4) ''0''" for l
    using that h(1) by (simp add: strace_dispatch_def)
  have dd: "dtrace_on_line fs bl dctx line = Inl AssertionError"
    if "re_match DTRACE_RE_HEADER line = Some m" "replace_dash (group m 3) = ''chdir''"
       "\<not> startswith (group m 5) ''0''"
    using that h(2) by (simp add: dtrace_on_line_def)
  have dp: "dtrace_parse_log fs bl (pre @ line # post) = Inl AssertionError"
    if "dtrace_on_line fs bl dctx line = Inl AssertionError"
       "dtrace_lines fs bl dtrace_init pre = Inr dctx" for pre post
    using that by (simp add: dtrace_parse_log_def dtrace_lines_append)
  have sp: "strace_parse_log fs bl (pre @ raw # post) = Inl AssertionError"
    if "strace_on_line fs bl sctx raw = Inl AssertionError"
       "strace_lines fs bl strace_init pre = Inr sctx" for pre post
    using that by (simp add: strace_parse_log_def strace_lines_append)
  show ?thesis
    using h sd dd dp sp strace_on_line_plain [of raw fs bl sctx] by metis
qed

theorem failed_chdir_is_fatal_witness:
  "strace_parse_log fs_r (blacklist STRACE_IGNORED)
     [''1 chdir(\"x\") = -1 ENOENT (No such file or directory)'' @ [CHR 0x0A]] = Inl AssertionError
   \<and> dtrace_parse_log fs_r (blacklist DTRACE_IGNORED)
     [''0 1:2 chdir(\"x\") = 2'' @ [CHR 0x0A]] = Inl AssertionError"
proof -
  let ?raw = "''1 chdir(\"x\") = -1 ENOENT (No such file or directory)'' @ [CHR 0x0A]"
  let ?m = "[''1'', ''chdir'', ''\"x\"'', ''-1 ENOENT (No such file or directory)'']"
  let ?line = "''0 1:2 chdir(\"x\") = 2'' @ [CHR 0x0A]"
  let ?n = "[''1'', ''2'', ''chdir'', ''\"x\"'', ''2'']"
  have s: "re_match RE_SIGNAL (strip ?raw) = None" "re_match RE_KILLED (strip ?raw) = None"
    "\<not> endswith (strip ?raw) UNFINISHED" "re_match RE_UNAVAILABLE (strip ?raw) = None"
    "re_match RE_RESUMED (strip ?raw) = None" "re_match RE_HEADER (strip ?raw) = Some ?m"
    "group ?m 2 = ''chdir''" "\<not> startswith (group ?m 4) ''0''"
    by code_simp+
  have d: "re_match DTRACE_RE_HEADER ?line = Some ?n" "replace_dash (group ?n 3) = ''chdir''"
    "\<not> startswith (group ?n 5) ''0''"
    by code_simp+
  have i: "strace_lines fs_r (blacklist STRACE_IGNORED) strace_init [] = Inr strace_init"
    "dtrace_lines fs_r (blacklist DTRACE_IGNORED) dtrace_init [] = Inr dtrace_init"
    by simp_all
  from failed_chdir_is_fatal [where raw = ?raw and m = ?m and fs = fs_r
      and bl = "blacklist STRACE_IGNORED" and sctx = strace_init] s i(1)
  have a: "strace_parse_log fs_r (blacklist STRACE_IGNORED) ([] @ ?raw # []) = Inl AssertionError"
    by blast
  from failed_chdir_is_fatal [where line = ?line and m = ?n and fs = fs_r
      and bl = "blacklist DTRACE_IGNORED" and dctx = dtrace_init] d i(2)
  have b: "dtrace_parse_log fs_r (blacklist DTRACE_IGNORED) ([] @ ?line # []) = Inl AssertionError"
    by blast
  from a b show ?thesis
    by simp
qed

subsection \<open>chdir\<close>

lemma first_some_upt:
  assumes "a \<le> k" "k < b" "f k = Some r" "\<forall>j. a \<le> j \<and> j < k \<longrightarrow> f j = None"
  shows "first_some f [a..<b] = Some r"
  using assms
proof (induction "k - a" arbitrary: a)
  case 0
  then have "a = k" by simp
  with 0 show ?case by (simp add: upt_conv_Cons)
next
  case (Suc n)
  then have lt: "a < k" and none: "f a = None" by auto
  from Suc have "first_some f [Suc a..<b] = Some r"
    by (intro Suc.hyps(1)) auto
  with lt none Suc.prems(2) show ?case
    by (simp add: upt_conv_Cons)
qed

lemma re_match_from_Lit:
  "re_match_from (Lit l # r) s g =
     (if startswith s l then re_match_from r (drop (length l) s) g else None)"
  by simp

lemma re_match_from_lazy:
  assumes "mn \<le> k" and "k \<le> length (takeWhile cls s)"
    and "re_match_from r (drop k s) (if captured then g @ [take k s] else g) = Some res"
    and "\<forall>j. mn \<le> j \<and> j < k \<longrightarrow>
           re_match_from r (drop j s) (if captured then g @ [take j s] else g) = None"
  shows "re_match_from (Rep cls mn False captured # r) s g = Some res"
proof -
  have "first_some (\<lambda>k. re_match_from r (drop k s) (if captured then g @ [take k s] else g))
          [mn..<Suc (length (takeWhile cls s))] = Some res"
    using assms by (intro first_some_upt [where k = k]) auto
  then show ?thesis
    by (simp add: candidates_def)
qed

text \<open>The argument of a chdir record: \<^verbatim>\<open>RE_CHDIR\<close> strips the two quotes.\<close>

lemma re_chdir_quoted:
  assumes "d \<noteq> []" "CHR 0x0A \<notin> set d"
  shows "re_match RE_CHDIR (CHR 0x22 # d @ [CHR 0x22]) = Some [d]"
proof -
  have tw: "takeWhile cls_dot (d @ [CHR 0x22]) = d @ [CHR 0x22]"
    using assms(2) by (auto simp: takeWhile_eq_all_conv cls_dot_def)
  have miss: "re_match_from [Lit [CHR 0x22], Eol] (drop j (d @ [CHR 0x22])) g = None"
    if "j < length d" for j g
  proof -
    from that have "drop j (d @ [CHR 0x22]) = drop j d @ [CHR 0x22]" "drop j d \<noteq> []"
      by auto
    then show ?thesis
      by (cases "drop j d") (auto simp: startswith_def)
  qed
  have "re_match_from [Rep cls_dot 1 False True, Lit [CHR 0x22], Eol] (d @ [CHR 0x22]) [] = Some [d]"
  proof (rule re_match_from_lazy [where k = "length d"])
    show "1 \<le> length d" using assms(1) by (simp add: Suc_le_eq)
    show "length d \<le> length (takeWhile cls_dot (d @ [CHR 0x22]))" by (simp add: tw)
    show "re_match_from [Lit [CHR 0x22], Eol] (drop (length d) (d @ [CHR 0x22]))
            (if True then [] @ [take (length d) (d @ [CHR 0x22])] else []) = Some [d]"
      by (simp add: startswith_def)
    show "\<forall>j. 1 \<le> j \<and> j < length d \<longrightarrow>
            re_match_from [Lit [CHR 0x22], Eol] (drop j (d @ [CHR 0x22]))
              (if True then [] @ [take j (d @ [CHR 0x22])] else []) = None"
      using miss by blast
  qed
  then show ?thesis
    by (simp add: re_match_def RE_CHDIR_def re_match_from_Lit startswith_def
          del: re_match_from.simps)
qed

text \<open>
  C5. A successful chdir record (result starting with \<open>0\<close>) with the quoted argument \<open>d\<close>,
  processed for \<open>pid\<close> by the strace or the dtrace handler: an absolute \<open>d\<close> replaces the
  cwd of \<open>pid\<close>; a relative \<open>d\<close> makes it \<open>join previous d\<close>, where \<open>previous\<close> is the cwd
  of \<open>pid\<close> before; so two relative chdirs in a row give \<open>join (join previous d) d'\<close>.
\<close>

theorem chdir_updates_cwd:
  assumes "startswith result ''0''" and "d \<noteq> []" and "CHR 0x0A \<notin> set d"
  shows
  "(startswith d ''/'' \<longrightarrow>
      strace_handle_chdir sctx pid (CHR 0x22 # d @ [CHR 0x22]) result
        = Inr (sctx\<lparr>cwd := (cwd sctx)(pid \<mapsto> d)\<rparr>)
      \<and> dtrace_handle_chdir dctx pid (CHR 0x22 # d @ [CHR 0x22]) result
        = Inr (dctx\<lparr>cwd := (cwd dctx)(pid \<mapsto> d)\<rparr>))
   \<and> (\<not> startswith d ''/'' \<and> cwd sctx pid = Some previous \<longrightarrow>
      strace_handle_chdir sctx pid (CHR 0x22 # d @ [CHR 0x22]) result
        = Inr (sctx\<lparr>cwd := (cwd sctx)(pid \<mapsto> join previous d)\<rparr>))
   \<and> (\<not> startswith d ''/'' \<and> cwd dctx pid = Some previous \<longrightarrow>
      dtrace_handle_chdir dctx pid (CHR 0x22 # d @ [CHR 0x22]) result
        = Inr (dctx\<lparr>cwd := (cwd dctx)(pid \<mapsto> join previous d)\<rparr>))
   \<and> (\<not> startswith d ''/'' \<and> \<not> startswith d' ''/'' \<and> d' \<noteq> [] \<and> CHR 0x0A \<notin> set d'
        \<and> startswith result' ''0'' \<and> cwd sctx pid = Some previous \<longrightarrow>
      (case strace_handle_chdir sctx pid (CHR 0x22 # d @ [CHR 0x22]) result of
         Inl e \<Rightarrow> Inl e
       | Inr c \<Rightarrow> strace_handle_chdir c pid (CHR 0x22 # d' @ [CHR 0x22]) result')
        = Inr (sctx\<lparr>cwd := (cwd sctx)(pid \<mapsto> join (join previous d) d')\<rparr>))
   \<and> (\<not> startswith d ''/'' \<and> \<not> startswith d' ''/'' \<and> d' \<noteq> [] \<and> CHR 0x0A \<notin> set d'
        \<and> startswith result' ''0'' \<and> cwd dctx pid = Some previous \<longrightarrow>
      (case dtrace_handle_chdir dctx pid (CHR 0x22 # d @ [CHR 0x22]) result of
         Inl e \<Rightarrow> Inl e
       | Inr c \<Rightarrow> dtrace_handle_chdir c pid (CHR 0x22 # d' @ [CHR 0x22]) result')
        = Inr (dctx\<lparr>cwd := (cwd dctx)(pid \<mapsto> join (join previous d) d')\<rparr>))"
  using assms
  by (simp add: strace_handle_chdir_def dtrace_handle_chdir_def re_chdir_quoted group_def)

theorem chdir_updates_cwd_witness:
  "(case strace_lines fs_r (blacklist STRACE_IGNORED) strace_init
           [''1 chdir(\"/r\") = 0'', ''1 chdir(\"d\") = 0'', ''1 chdir(\"sub\") = 0''] of
      Inl e \<Rightarrow> None | Inr c \<Rightarrow> cwd c 1) = Some ''/r/d/sub''
   \<and> strace_handle_chdir (strace_init\<lparr>cwd := [1 \<mapsto> ''/r'']\<rparr>) 1 ''\"d\"'' ''0''
       = Inr (strace_init\<lparr>cwd := [1 \<mapsto> ''/r/d'']\<rparr>)
   \<and> dtrace_handle_chdir (dtrace_init\<lparr>cwd := [1 \<mapsto> ''/r'']\<rparr>) 1 ''\"/x\"'' ''0''
       = Inr (dtrace_init\<lparr>cwd := [1 \<mapsto> ''/x'']\<rparr>)"
proof -
  have a: "(case strace_lines fs_r (blacklist STRACE_IGNORED) strace_init
           [''1 chdir(\"/r\") = 0'', ''1 chdir(\"d\") = 0'', ''1 chdir(\"sub\") = 0''] of
      Inl e \<Rightarrow> None | Inr c \<Rightarrow> cwd c 1) = Some ''/r/d/sub''"
    by code_simp
  have h: "startswith ''0'' ''0''" "''d'' \<noteq> []" "CHR 0x0A \<notin> set ''d''" "\<not> startswith ''d'' ''/''"
    "''/x'' \<noteq> []" "CHR 0x0A \<notin> set ''/x''" "startswith ''/x'' ''/''"
    "cwd (strace_init\<lparr>cwd := [1 \<mapsto> ''/r'']\<rparr>) 1 = Some ''/r''" "join ''/r'' ''d'' = ''/r/d''"
    by (simp_all add: startswith_def join_def endswith_def)
  from chdir_updates_cwd [OF h(1,2,3), where sctx = "strace_init\<lparr>cwd := [1 \<mapsto> ''/r'']\<rparr>"
      and pid = 1 and previous = "''/r''"] h(4,8,9)
  have b: "strace_handle_chdir (strace_init\<lparr>cwd := [1 \<mapsto> ''/r'']\<rparr>) 1 ''\"d\"'' ''0''
       = Inr (strace_init\<lparr>cwd := [1 \<mapsto> ''/r/d'']\<rparr>)"
    by simp
  from chdir_updates_cwd [OF h(1,5,6), where dctx = "dtrace_init\<lparr>cwd := [1 \<mapsto> ''/r'']\<rparr>"
      and pid = 1] h(7)
  have c: "dtrace_handle_chdir (dtrace_init\<lparr>cwd := [1 \<mapsto> ''/r'']\<rparr>) 1 ''\"/x\"'' ''0''
       = Inr (dtrace_init\<lparr>cwd := [1 \<mapsto> ''/x'']\<rparr>)"
    by simp
  from a b c show ?thesis
    by simp
qed

subsection \<open>Failed file events in the dtrace parser\<close>

text \<open>
  C10 (as stated, refuted). The D script prints every return of \<^verbatim>\<open>rename\<close> with its errno, so
  a rename of the empty path, which fails with errno 2, is a line of the log. \<^verbatim>\<open>RE_RENAME\<close>
  asks for two non-empty paths and does not match its arguments; \<^verbatim>\<open>handle_rename\<close> raises
  \<open>AttributeError\<close> before \<^verbatim>\<open>_handle_file\<close> is reached: the event is not dropped, the parse
  ends without a result.
\<close>

theorem dtrace_failed_rename_counterexample:
  "re_match DTRACE_RE_HEADER (''8 1:2 rename(\"\", \"b\") = 2'' @ [CHR 0x0A])
     = Some [''1'', ''2'', ''rename'', ''\"\", \"b\"'', ''2'']
   \<and> startswith ''2'' ''2''
   \<and> re_match RE_RENAME ''\"\", \"b\"'' = None
   \<and> dtrace_on_line fs_r (blacklist DTRACE_IGNORED) dtrace_init
        (''8 1:2 rename(\"\", \"b\") = 2'' @ [CHR 0x0A]) = Inl AttributeError
   \<and> dtrace_parse_log fs_r (blacklist DTRACE_IGNORED)
        [''0 1:2 chdir(\"/r\") = 0'' @ [CHR 0x0A],
         ''8 1:2 rename(\"\", \"b\") = 2'' @ [CHR 0x0A],
         ''9 1:2 open(\"a\", 0, 0) = 0'' @ [CHR 0x0A]] = Inl AttributeError"
proof -
  have h: "re_match DTRACE_RE_HEADER (''8 1:2 rename(\"\", \"b\") = 2'' @ [CHR 0x0A])
             = Some [''1'', ''2'', ''rename'', ''\"\", \"b\"'', ''2'']"
    "startswith ''2'' ''2''"
    "re_match RE_RENAME ''\"\", \"b\"'' = None"
    "replace_dash ''rename'' = ''rename''"
    by code_simp+
  have l: "dtrace_on_line fs_r (blacklist DTRACE_IGNORED) dtrace_init
        (''8 1:2 rename(\"\", \"b\") = 2'' @ [CHR 0x0A]) = Inl AttributeError"
    using h by (simp add: dtrace_on_line_def dtrace_handle_rename_def group_def)
  have p: "dtrace_parse_log fs_r (blacklist DTRACE_IGNORED)
        [''0 1:2 chdir(\"/r\") = 0'' @ [CHR 0x0A],
         ''8 1:2 rename(\"\", \"b\") = 2'' @ [CHR 0x0A],
         ''9 1:2 open(\"a\", 0, 0) = 0'' @ [CHR 0x0A]] = Inl AttributeError"
    by code_simp
  from h l p show ?thesis
    by simp
qed

text \<open>
  C10 (amended). In the dtrace parser every call of \<^verbatim>\<open>_handle_file\<close> whose result starts with
  \<open>-1\<close> or with \<open>2\<close> returns before the path is resolved: the context (the two sets and
  the cwd map) is unchanged, whatever the path and even when the pid has no cwd. Hence
  every open, open_nocancel and rename record with such a result whose arguments match
  \<^verbatim>\<open>RE_OPEN\<close>, respectively \<^verbatim>\<open>RE_RENAME\<close>, is dropped, in its handler and in \<^verbatim>\<open>on_line\<close>.
\<close>

theorem dtrace_failed_event_dropped:
  assumes "startswith result ''-1'' \<or> startswith result ''2''"
  shows
  "dtrace_handle_file fs bl ctx pid filepath result = Inr ctx
   \<and> (re_match DTRACE_RE_OPEN args = Some groups \<longrightarrow>
        dtrace_handle_open fs bl ctx pid args result = Inr ctx
        \<and> dtrace_handle_open_nocancel fs bl ctx pid args result = Inr ctx)
   \<and> (re_match RE_RENAME args = Some groups \<longrightarrow>
        dtrace_handle_rename fs bl ctx pid args result = Inr ctx)
   \<and> (re_match DTRACE_RE_HEADER line = Some m \<and> group m 5 = result
        \<and> (replace_dash (group m 3) = ''open'' \<or> replace_dash (group m 3) = ''open_nocancel'')
        \<and> re_match DTRACE_RE_OPEN (group m 4) = Some groups \<longrightarrow>
        dtrace_on_line fs bl ctx line = Inr ctx)
   \<and> (re_match DTRACE_RE_HEADER line = Some m \<and> group m 5 = result
        \<and> replace_dash (group m 3) = ''rename''
        \<and> re_match RE_RENAME (group m 4) = Some groups \<longrightarrow>
        dtrace_on_line fs bl ctx line = Inr ctx)"
proof -
  have f: "dtrace_handle_file fs bl ctx pid p result = Inr ctx" for p pid
    using assms by (auto simp: dtrace_handle_file_def)
  have o: "dtrace_handle_open fs bl ctx pid a result = Inr ctx"
          "dtrace_handle_open_nocancel fs bl ctx pid a result = Inr ctx"
    if "re_match DTRACE_RE_OPEN a = Some groups" for a pid
    using that f by (simp_all add: dtrace_handle_open_def dtrace_handle_open_nocancel_def)
  have r: "dtrace_handle_rename fs bl ctx pid a result = Inr ctx"
    if "re_match RE_RENAME a = Some groups" for a pid
    using that f by (simp add: dtrace_handle_rename_def)
  have l1: "dtrace_on_line fs bl ctx line = Inr ctx"
    if "re_match DTRACE_RE_HEADER line = Some m" "group m 5 = result"
       "replace_dash (group m 3) = ''open'' \<or> replace_dash (group m 3) = ''open_nocancel''"
       "re_match DTRACE_RE_OPEN (group m 4) = Some groups"
    using that o [of "group m 4"] by (auto simp: dtrace_on_line_def)
  have l2: "dtrace_on_line fs bl ctx line = Inr ctx"
    if "re_match DTRACE_RE_HEADER line = Some m" "group m 5 = result"
       "replace_dash (group m 3) = ''rename''"
       "re_match RE_RENAME (group m 4) = Some groups"
    using that r [of "group m 4"] by (auto simp: dtrace_on_line_def)
  from f o r l1 l2 show ?thesis
    by blast
qed

theorem dtrace_failed_event_dropped_witness:
  "dtrace_on_line fs_r (blacklist DTRACE_IGNORED) dtrace_init
     (''7 1:2 open(\"missing\", 0, 0) = 2'' @ [CHR 0x0A]) = Inr dtrace_init
   \<and> dtrace_on_line fs_r (blacklist DTRACE_IGNORED) dtrace_init
     (''8 1:2 rename(\"a\", \"b\") = -1'' @ [CHR 0x0A]) = Inr dtrace_init"
proof -
  let ?l1 = "''7 1:2 open(\"missing\", 0, 0) = 2'' @ [CHR 0x0A]"
  let ?m1 = "[''1'', ''2'', ''open'', ''\"missing\", 0, 0'', ''2'']"
  let ?l2 = "''8 1:2 rename(\"a\", \"b\") = -1'' @ [CHR 0x0A]"
  let ?m2 = "[''1'', ''2'', ''rename'', ''\"a\", \"b\"'', ''-1'']"
  have h1: "startswith ''2'' ''-1'' \<or> startswith ''2'' ''2''"
    "re_match DTRACE_RE_HEADER ?l1 = Some ?m1" "group ?m1 5 = ''2''"
    "replace_dash (group ?m1 3) = ''open''"
    "re_match DTRACE_RE_OPEN (group ?m1 4) = Some [''missing'', ''0'', ''0'']"
    by code_simp+
  have h2: "startswith ''-1'' ''-1'' \<or> startswith ''-1'' ''2''"
    "re_match DTRACE_RE_HEADER ?l2 = Some ?m2" "group ?m2 5 = ''-1''"
    "replace_dash (group ?m2 3) = ''rename''"
    "re_match RE_RENAME (group ?m2 4) = Some [''a'', ''b'']"
    by code_simp+
  from dtrace_failed_event_dropped [OF h1(1), where line = ?l1 and m = ?m1
      and groups = "[''missing'', ''0'', ''0'']"] h1(2-)
  have a: "dtrace_on_line fs_r (blacklist DTRACE_IGNORED) dtrace_init ?l1 = Inr dtrace_init"
    by blast
  from dtrace_failed_event_dropped [OF h2(1), where line = ?l2 and m = ?m2
      and groups = "[''a'', ''b'']"] h2(2-)
  have b: "dtrace_on_line fs_r (blacklist DTRACE_IGNORED) dtrace_init ?l2 = Inr dtrace_init"
    by blast
  from a b show ?thesis
    by simp
qed

subsection \<open>Function names without a handler\<close>

text \<open>
  C3 (as stated, refuted). A dtrace line whose function name has no handler does not fail:
  \<^verbatim>\<open>getattr\<close> falls back on \<^verbatim>\<open>_handle_ignored\<close>, and the parse goes on to the next line.
\<close>

theorem dtrace_unknown_name_counterexample:
  "re_match DTRACE_RE_HEADER (''1 1:2 access(\"a\") = 0'' @ [CHR 0x0A])
     = Some [''1'', ''2'', ''access'', ''\"a\"'', ''0'']
   \<and> replace_dash ''access'' \<notin> set dtrace_handlers
   \<and> dtrace_parse_log fs_r (blacklist DTRACE_IGNORED)
        [''0 1:2 chdir(\"/r\") = 0'' @ [CHR 0x0A],
         ''1 1:2 access(\"a\") = 0'' @ [CHR 0x0A],
         ''2 1:2 open(\"a\", 0, 0) = 0'' @ [CHR 0x0A]] = Inr ({''/r/a''}, {})"
  by code_simp

text \<open>
  C3 (amended). A strace line that reaches the dispatch with a function name outside the
  registered handlers fails with \<open>AttributeError\<close>, and so does the whole parse; a dtrace
  line with a function name outside the registered handlers is ignored and leaves the
  context unchanged.
\<close>

theorem unknown_function_name:
  "(re_match RE_HEADER line = Some m \<and> group m 2 \<notin> set strace_traces
      \<longrightarrow> strace_dispatch fs bl sctx line = Inl AttributeError)
   \<and> (re_match RE_SIGNAL (strip raw) = None \<and> re_match RE_KILLED (strip raw) = None
        \<and> \<not> endswith (strip raw) UNFINISHED \<and> re_match RE_UNAVAILABLE (strip raw) = None
        \<and> re_match RE_RESUMED (strip raw) = None
        \<and> re_match RE_HEADER (strip raw) = Some m \<and> group m 2 \<notin> set strace_traces
      \<longrightarrow> strace_on_line fs bl sctx raw = Inl AttributeError
          \<and> (\<forall>pre post. strace_lines fs bl strace_init pre = Inr sctx
                \<longrightarrow> strace_parse_log fs bl (pre @ raw # post) = Inl AttributeError))
   \<and> (re_match DTRACE_RE_HEADER line = Some m \<and> replace_dash (group m 3) \<notin> set dtrace_handlers
      \<longrightarrow> dtrace_on_line fs bl dctx line = Inr dctx)"
proof -
  have sd: "strace_dispatch fs bl sctx l = Inl AttributeError"
    if "re_match RE_HEADER l = Some m" "group m 2 \<notin> set strace_traces" for l
    using that by (simp add: strace_dispatch_def strace_traces_def)
  have sp: "strace_parse_log fs bl (pre @ raw # post) = Inl AttributeError"
    if "strace_on_line fs bl sctx raw = Inl AttributeError"
       "strace_lines fs bl strace_init pre = Inr sctx" for pre post
    using that by (simp add: strace_parse_log_def strace_lines_append)
  have dd: "dtrace_on_line fs bl dctx line = Inr dctx"
    if "re_match DTRACE_RE_HEADER line = Some m" "replace_dash (group m 3) \<notin> set dtrace_handlers"
    using that by (simp add: dtrace_on_line_def dtrace_handlers_def)
  show ?thesis
    using sd sp dd strace_on_line_plain [of raw fs bl sctx] by metis
qed

theorem unknown_function_name_witness:
  "strace_parse_log fs_r (blacklist STRACE_IGNORED)
     [''1 chdir(\"/r\") = 0'' @ [CHR 0x0A], ''1 access(\"a\", R_OK) = 0'' @ [CHR 0x0A]]
     = Inl AttributeError
   \<and> dtrace_on_line fs_r (blacklist DTRACE_IGNORED) dtrace_init
     (''1 1:2 access(\"a\") = 0'' @ [CHR 0x0A]) = Inr dtrace_init"
proof -
  let ?raw = "''1 access(\"a\", R_OK) = 0'' @ [CHR 0x0A]"
  let ?m = "[''1'', ''access'', ''\"a\", R_OK'', ''0'']"
  let ?line = "''1 1:2 access(\"a\") = 0'' @ [CHR 0x0A]"
  let ?n = "[''1'', ''2'', ''access'', ''\"a\"'', ''0'']"
  let ?ctx = "strace_init\<lparr>cwd := [1 \<mapsto> ''/r'']\<rparr>"
  have s: "re_match RE_SIGNAL (strip ?raw) = None" "re_match RE_KILLED (strip ?raw) = None"
    "\<not> endswith (strip ?raw) UNFINISHED" "re_match RE_UNAVAILABLE (strip ?raw) = None"
    "re_match RE_RESUMED (strip ?raw) = None" "re_match RE_HEADER (strip ?raw) = Some ?m"
    "group ?m 2 \<notin> set strace_traces"
    by code_simp+
  have d: "re_match DTRACE_RE_HEADER ?line = Some ?n"
    "replace_dash (group ?n 3) \<notin> set dtrace_handlers"
    by code_simp+
  have h: "re_match RE_SIGNAL (strip (''1 chdir(\"/r\") = 0'' @ [CHR 0x0A])) = None"
    "re_match RE_KILLED (strip (''1 chdir(\"/r\") = 0'' @ [CHR 0x0A])) = None"
    "\<not> endswith (strip (''1 chdir(\"/r\") = 0'' @ [CHR 0x0A])) UNFINISHED"
    "re_match RE_UNAVAILABLE (strip (''1 chdir(\"/r\") = 0'' @ [CHR 0x0A])) = None"
    "re_match RE_RESUMED (strip (''1 chdir(\"/r\") = 0'' @ [CHR 0x0A])) = None"
    "re_match RE_HEADER (strip (''1 chdir(\"/r\") = 0'' @ [CHR 0x0A]))
       = Some [''1'', ''chdir'', ''\"/r\"'', ''0'']"
    "re_match RE_CHDIR ''\"/r\"'' = Some [''/r'']"
    "int_of_digits ''1'' = 1"
    by code_simp+
  have i: "strace_lines fs_r (blacklist STRACE_IGNORED) strace_init
             [''1 chdir(\"/r\") = 0'' @ [CHR 0x0A]] = Inr ?ctx"
    using h by (simp add: strace_on_line_plain strace_dispatch_def strace_handle_chdir_def
        group_def startswith_def strace_init_def)
  from unknown_function_name [where raw = ?raw and m = ?m and fs = fs_r
      and bl = "blacklist STRACE_IGNORED" and sctx = ?ctx] s i
  have a: "strace_parse_log fs_r (blacklist STRACE_IGNORED)
             ([''1 chdir(\"/r\") = 0'' @ [CHR 0x0A]] @ ?raw # []) = Inl AttributeError"
    by blast
  from unknown_function_name [where line = ?line and m = ?n and fs = fs_r
      and bl = "blacklist DTRACE_IGNORED" and dctx = dtrace_init] d
  have b: "dtrace_on_line fs_r (blacklist DTRACE_IGNORED) dtrace_init ?line = Inr dtrace_init"
    by blast
  from a b show ?thesis
    by simp
qed

subsection \<open>Unfinished and resumed strace calls\<close>



subsection \<open>The two sets of a parse\<close>

lemma sets_inv_cwd [simp]: "sets_inv fs (ctx\<lparr>cwd := c\<rparr>) = sets_inv fs ctx"
  by (simp add: sets_inv_def)

lemma sets_inv_pending [simp]: "sets_inv fs (ctx\<lparr>pending_calls := p\<rparr>) = sets_inv fs ctx"
  by (simp add: sets_inv_def)

lemma strace_handle_file_inv:
  "strace_handle_file fs bl ctx pid filepath result = Inr ctx' \<Longrightarrow> sets_inv fs ctx
     \<Longrightarrow> sets_inv fs ctx'"
  unfolding strace_handle_file_def
  by (auto simp: sets_inv_def split: if_splits sum.splits option.splits)

lemma strace_handle_chdir_inv:
  "strace_handle_chdir ctx pid args result = Inr ctx' \<Longrightarrow> sets_inv fs ctx \<Longrightarrow> sets_inv fs ctx'"
  unfolding strace_handle_chdir_def
  by (auto split: if_splits option.splits)

lemma strace_handle_clone_inv:
  "strace_handle_clone ctx pid result = Inr ctx' \<Longrightarrow> sets_inv fs ctx \<Longrightarrow> sets_inv fs ctx'"
  unfolding strace_handle_clone_def
  by (auto split: if_splits option.splits)

lemma strace_handle_exit_group_inv:
  "strace_handle_exit_group ctx pid = Inr ctx' \<Longrightarrow> sets_inv fs ctx \<Longrightarrow> sets_inv fs ctx'"
  unfolding strace_handle_exit_group_def
  by (auto split: option.splits)

lemma strace_handle_execve_inv:
  "strace_handle_execve fs bl ctx pid args result = Inr ctx' \<Longrightarrow> sets_inv fs ctx
     \<Longrightarrow> sets_inv fs ctx'"
  unfolding strace_handle_execve_def
  by (auto split: option.splits dest: strace_handle_file_inv)

lemma strace_handle_open_inv:
  "strace_handle_open fs bl ctx pid args result = Inr ctx' \<Longrightarrow> sets_inv fs ctx
     \<Longrightarrow> sets_inv fs ctx'"
  unfolding strace_handle_open_def
  by (auto split: option.splits if_splits dest: strace_handle_file_inv)

lemma strace_handle_rename_inv:
  "strace_handle_rename fs bl ctx pid args result = Inr ctx' \<Longrightarrow> sets_inv fs ctx
     \<Longrightarrow> sets_inv fs ctx'"
  unfolding strace_handle_rename_def
  by (auto split: option.splits sum.splits dest: strace_handle_file_inv)

lemmas strace_handler_invs = strace_handle_chdir_inv strace_handle_clone_inv
  strace_handle_exit_group_inv strace_handle_execve_inv strace_handle_open_inv
  strace_handle_rename_inv

lemma strace_dispatch_inv:
  assumes "strace_dispatch fs bl ctx line = Inr ctx'" and "sets_inv fs ctx"
  shows "sets_inv fs ctx'"
proof (cases "re_match RE_HEADER line")
  case None
  with assms show ?thesis by (simp add: strace_dispatch_def)
next
  case (Some m)
  with assms show ?thesis
    unfolding strace_dispatch_def
    by (simp split: if_splits) (blast dest: strace_handler_invs)+
qed

lemma strace_on_line_inv:
  assumes "strace_on_line fs bl ctx raw = Inr ctx'" and "sets_inv fs ctx"
  shows "sets_inv fs ctx'"
  using assms unfolding strace_on_line_def
  by (auto split: if_splits option.splits
      dest: strace_handle_exit_group_inv strace_dispatch_inv)

lemma strace_lines_inv:
  "strace_lines fs bl ctx log = Inr ctx' \<Longrightarrow> sets_inv fs ctx \<Longrightarrow> sets_inv fs ctx'"
proof (induction log arbitrary: ctx)
  case Nil
  then show ?case by simp
next
  case (Cons line log)
  then show ?case
    by (auto split: sum.splits dest: strace_on_line_inv)
qed

lemma dtrace_handle_file_inv:
  "dtrace_handle_file fs bl ctx pid filepath result = Inr ctx' \<Longrightarrow> sets_inv fs ctx
     \<Longrightarrow> sets_inv fs ctx'"
  unfolding dtrace_handle_file_def
  by (auto simp: sets_inv_def split: if_splits sum.splits option.splits)

lemma dtrace_handle_chdir_inv:
  "dtrace_handle_chdir ctx pid args result = Inr ctx' \<Longrightarrow> sets_inv fs ctx \<Longrightarrow> sets_inv fs ctx'"
  unfolding dtrace_handle_chdir_def
  by (auto split: if_splits option.splits)

lemma dtrace_handle_proc_start_inv:
  "dtrace_handle_proc_start ctx ppid pid result = Inr ctx' \<Longrightarrow> sets_inv fs ctx
     \<Longrightarrow> sets_inv fs ctx'"
  unfolding dtrace_handle_proc_start_def
  by (auto split: if_splits option.splits)

lemma dtrace_handle_proc_exit_inv:
  "dtrace_handle_proc_exit ctx pid = Inr ctx' \<Longrightarrow> sets_inv fs ctx \<Longrightarrow> sets_inv fs ctx'"
  unfolding dtrace_handle_proc_exit_def
  by (auto split: option.splits)

lemma dtrace_handle_open_inv:
  "dtrace_handle_open fs bl ctx pid args result = Inr ctx' \<Longrightarrow> sets_inv fs ctx
     \<Longrightarrow> sets_inv fs ctx'"
  unfolding dtrace_handle_open_def
  by (auto split: option.splits if_splits dest: dtrace_handle_file_inv)

lemma dtrace_handle_rename_inv:
  "dtrace_handle_rename fs bl ctx pid args result = Inr ctx' \<Longrightarrow> sets_inv fs ctx
     \<Longrightarrow> sets_inv fs ctx'"
  unfolding dtrace_handle_rename_def
  by (auto split: option.splits sum.splits dest: dtrace_handle_file_inv)

lemmas dtrace_handler_invs = dtrace_handle_chdir_inv dtrace_handle_proc_start_inv
  dtrace_handle_proc_exit_inv dtrace_handle_open_inv dtrace_handle_rename_inv

lemma dtrace_on_line_inv:
  assumes "dtrace_on_line fs bl ctx line = Inr ctx'" and "sets_inv fs ctx"
  shows "sets_inv fs ctx'"
proof (cases "re_match DTRACE_RE_HEADER line")
  case None
  with assms show ?thesis by (simp add: dtrace_on_line_def)
next
  case (Some m)
  with assms show ?thesis
    unfolding dtrace_on_line_def dtrace_handle_open_nocancel_def
    by (simp split: if_splits) (blast dest: dtrace_handler_invs)+
qed

lemma dtrace_lines_inv:
  "dtrace_lines fs bl ctx log = Inr ctx' \<Longrightarrow> sets_inv fs ctx \<Longrightarrow> sets_inv fs ctx'"
proof (induction log arbitrary: ctx)
  case Nil
  then show ?case by simp
next
  case (Cons line log)
  then show ?case
    by (auto split: sum.splits dest: dtrace_on_line_inv)
qed

lemma sets_inv_images_disjoint:
  assumes "sets_inv fs ctx"
    and "\<forall>p \<in> files ctx \<union> non_existent ctx. isfile fs (realpath fs p) = isfile fs p"
  shows "realpath fs ` files ctx \<inter> realpath fs ` non_existent ctx = {}"
proof (rule ccontr)
  assume "realpath fs ` files ctx \<inter> realpath fs ` non_existent ctx \<noteq> {}"
  then obtain f g where fg: "f \<in> files ctx" "g \<in> non_existent ctx" "realpath fs f = realpath fs g"
    by auto
  with assms(1) have "isfile fs f" "\<not> isfile fs g"
    by (auto simp: sets_inv_def)
  moreover from fg assms(2) have "isfile fs f = isfile fs g"
    by (metis UnI1 UnI2)
  ultimately show False by simp
qed

lemma sets_inv_processes [simp]: "sets_inv fs (ctx\<lparr>processes := p\<rparr>) = sets_inv fs ctx"
  by (simp add: sets_inv_def)

lemma sets_inv_first_line [simp]: "sets_inv fs (ctx\<lparr>first_line := b\<rparr>) = sets_inv fs ctx"
  by (simp add: sets_inv_def)

lemma logman_handle_file_inv:
  "sets_inv fs ctx \<Longrightarrow> sets_inv fs (logman_handle_file fs bl ctx filename)"
  by (auto simp: logman_handle_file_def sets_inv_def)

lemma logman_call_inv:
  assumes "logman_call fs bl mapping name ctx line pid = Inr ctx'" and "sets_inv fs ctx"
  shows "sets_inv fs ctx'"
proof -
  have a: "sets_inv fs c" if "handle_FileIo_Create fs bl mapping ctx line = Inr c" for c
    using that assms(2) unfolding handle_FileIo_Create_def
    by (auto split: sum.splits option.splits intro: logman_handle_file_inv)
  have b: "sets_inv fs c" if "handle_Process_DCStart ctx line = Inr c" for c
    using that assms(2) unfolding handle_Process_DCStart_def
    by (auto split: sum.splits option.splits if_splits)
  have c: "sets_inv fs c" if "handle_Process_End ctx pid = Inr c" for c
    using that assms(2) unfolding handle_Process_End_def
    by (auto split: if_splits)
  have d: "sets_inv fs c" if "handle_Process_Start ctx line pid = Inr c" for c
    using that assms(2) unfolding handle_Process_Start_def
    by (auto split: sum.splits option.splits if_splits)
  from assms a b c d show ?thesis
    unfolding logman_call_def by (auto split: if_splits)
qed

lemma on_csv_line_inv:
  assumes "on_csv_line fs bl mapping ctx row = Inr ctx'" and "sets_inv fs ctx"
  shows "sets_inv fs ctx'"
  using assms unfolding on_csv_line_def
  by (auto split: if_splits option.splits dest: logman_call_inv)

lemma logman_rows_inv:
  "logman_rows fs bl mapping ctx log = Inr ctx' \<Longrightarrow> sets_inv fs ctx \<Longrightarrow> sets_inv fs ctx'"
proof (induction log arbitrary: ctx)
  case Nil
  then show ?case by simp
next
  case (Cons row log)
  then show ?case
    by (auto split: sum.splits dest: on_csv_line_inv)
qed

lemma sets_inv_init:
  "sets_inv fs strace_init" "sets_inv fs dtrace_init" "sets_inv fs logman_init"
  by (simp_all add: sets_inv_def strace_init_def dtrace_init_def logman_init_def)

text \<open>
  C1 (as stated, refuted). The process opens \<^verbatim>\<open>/r/a\<close> directly and through the temporary
  directory \<^verbatim>\<open>/r/t\<close>, which is gone when the log is parsed: \<^verbatim>\<open>/r/a\<close> is a regular file
  and goes to \<^verbatim>\<open>files\<close>, \<^verbatim>\<open>/r/t/../a\<close> is not and goes to \<^verbatim>\<open>non_existent\<close>, and
  \<^verbatim>\<open>realpath\<close> sends both to \<^verbatim>\<open>/r/a\<close>.
\<close>

theorem parse_log_overlap_counterexample:
  "strace_parse_log fs_r (blacklist STRACE_IGNORED) strace_log_tmpdir
     = Inr ({''/r/a''}, {''/r/a''})
   \<and> {''/r/a''} \<inter> {''/r/a''} \<noteq> ({} :: string set)
   \<and> isfile fs_r ''/r/a'' \<and> \<not> isfile fs_r ''/r/t/../a''
   \<and> realpath fs_r ''/r/t/../a'' = ''/r/a''"
  by code_simp

text \<open>
  C1 (amended). After a parse run of any flavor that reads its whole log, the sets
  \<^verbatim>\<open>files\<close> and \<^verbatim>\<open>non_existent\<close> of the context are disjoint, and \<^verbatim>\<open>parse_log\<close> returns
  their images under \<^verbatim>\<open>realpath\<close>. The returned sets are disjoint whenever \<^verbatim>\<open>realpath\<close>
  keeps, for every path of the two sets, whether the path is a regular file.
\<close>

theorem parse_sets_disjoint:
  "(strace_lines fs bl strace_init log = Inr sctx \<longrightarrow>
      strace_parse_log fs bl log = Inr (realpath fs ` files sctx, realpath fs ` non_existent sctx)
      \<and> files sctx \<inter> non_existent sctx = {}
      \<and> ((\<forall>p \<in> files sctx \<union> non_existent sctx. isfile fs (realpath fs p) = isfile fs p)
           \<longrightarrow> realpath fs ` files sctx \<inter> realpath fs ` non_existent sctx = {}))
   \<and> (dtrace_lines fs bl dtrace_init log = Inr dctx \<longrightarrow>
      dtrace_parse_log fs bl log = Inr (realpath fs ` files dctx, realpath fs ` non_existent dctx)
      \<and> files dctx \<inter> non_existent dctx = {}
      \<and> ((\<forall>p \<in> files dctx \<union> non_existent dctx. isfile fs (realpath fs p) = isfile fs p)
           \<longrightarrow> realpath fs ` files dctx \<inter> realpath fs ` non_existent dctx = {}))
   \<and> (logman_rows fs bl mapping logman_init rows = Inr lctx \<longrightarrow>
      logman_parse_log fs bl mapping rows
        = Inr (realpath fs ` files lctx, realpath fs ` non_existent lctx)
      \<and> files lctx \<inter> non_existent lctx = {}
      \<and> ((\<forall>p \<in> files lctx \<union> non_existent lctx. isfile fs (realpath fs p) = isfile fs p)
           \<longrightarrow> realpath fs ` files lctx \<inter> realpath fs ` non_existent lctx = {}))"
proof -
  have s: "sets_inv fs sctx" if "strace_lines fs bl strace_init log = Inr sctx"
    using that strace_lines_inv sets_inv_init(1) by blast
  have d: "sets_inv fs dctx" if "dtrace_lines fs bl dtrace_init log = Inr dctx"
    using that dtrace_lines_inv sets_inv_init(2) by blast
  have l: "sets_inv fs lctx" if "logman_rows fs bl mapping logman_init rows = Inr lctx"
    using that logman_rows_inv sets_inv_init(3) by blast
  have i: "files c \<inter> non_existent c = {}" if "sets_inv fs c" for c :: "'a trace_sets_scheme"
    using that by (simp add: sets_inv_def)
  show ?thesis
    using s d l i [of sctx] i [of dctx] i [of lctx]
      sets_inv_images_disjoint [of fs sctx] sets_inv_images_disjoint [of fs dctx]
      sets_inv_images_disjoint [of fs lctx]
    by (simp add: strace_parse_log_def dtrace_parse_log_def logman_parse_log_def)
qed

theorem parse_sets_disjoint_witness:
  "strace_parse_log fs_r (blacklist STRACE_IGNORED) strace_log_plain = Inr ({''/r/a''}, {''/r/b''})
   \<and> dtrace_parse_log fs_r (blacklist DTRACE_IGNORED) dtrace_log_plain
       = Inr ({''/r/a''}, {''/r/b''})
   \<and> logman_parse_log fs_win (blacklist [''c:'' @ [CHR 0x5C] @ ''windows'']) etw_mapping etw_log
       = Inr ({''c:'' @ [CHR 0x5C] @ ''r'' @ [CHR 0x5C] @ ''a''},
              {''c:'' @ [CHR 0x5C] @ ''r'' @ [CHR 0x5C] @ ''b''})
   \<and> {''/r/a''} \<inter> {''/r/b''} = ({} :: string set)"
proof -
  let ?wa = "''c:'' @ [CHR 0x5C] @ ''r'' @ [CHR 0x5C] @ ''a''"
  let ?wb = "''c:'' @ [CHR 0x5C] @ ''r'' @ [CHR 0x5C] @ ''b''"
  let ?wbl = "blacklist [''c:'' @ [CHR 0x5C] @ ''windows'']"
  have "case strace_lines fs_r (blacklist STRACE_IGNORED) strace_init strace_log_plain of
          Inl e \<Rightarrow> False | Inr c \<Rightarrow> files c = {''/r/a''} \<and> non_existent c = {''/r/b''}"
    by code_simp
  then obtain s where s: "strace_lines fs_r (blacklist STRACE_IGNORED) strace_init strace_log_plain = Inr s"
      "files s = {''/r/a''}" "non_existent s = {''/r/b''}"
    by (auto split: sum.splits)
  have "case dtrace_lines fs_r (blacklist DTRACE_IGNORED) dtrace_init dtrace_log_plain of
          Inl e \<Rightarrow> False | Inr c \<Rightarrow> files c = {''/r/a''} \<and> non_existent c = {''/r/b''}"
    by code_simp
  then obtain d where d: "dtrace_lines fs_r (blacklist DTRACE_IGNORED) dtrace_init dtrace_log_plain = Inr d"
      "files d = {''/r/a''}" "non_existent d = {''/r/b''}"
    by (auto split: sum.splits)
  have "case logman_rows fs_win ?wbl etw_mapping logman_init etw_log of
          Inl e \<Rightarrow> False | Inr c \<Rightarrow> files c = {?wa} \<and> non_existent c = {?wb}"
    by code_simp
  then obtain l where l: "logman_rows fs_win ?wbl etw_mapping logman_init etw_log = Inr l"
      "files l = {?wa}" "non_existent l = {?wb}"
    by (auto split: sum.splits)
  have r: "\<forall>p \<in> {''/r/a''} \<union> {''/r/b''}. isfile fs_r (realpath fs_r p) = isfile fs_r p"
    "\<forall>p \<in> {?wa} \<union> {?wb}. isfile fs_win (realpath fs_win p) = isfile fs_win p"
    by code_simp+
  have im: "realpath fs_r ` {''/r/a''} = {''/r/a''}" "realpath fs_r ` {''/r/b''} = {''/r/b''}"
    "realpath fs_win ` {?wa} = {?wa}" "realpath fs_win ` {?wb} = {?wb}"
    by code_simp+
  from parse_sets_disjoint [where fs = fs_r and bl = "blacklist STRACE_IGNORED"
      and log = strace_log_plain and sctx = s] s r(1)
  have a: "strace_parse_log fs_r (blacklist STRACE_IGNORED) strace_log_plain
             = Inr (realpath fs_r ` {''/r/a''}, realpath fs_r ` {''/r/b''})"
    "realpath fs_r ` {''/r/a''} \<inter> realpath fs_r ` {''/r/b''} = {}"
    by simp_all
  from parse_sets_disjoint [where fs = fs_r and bl = "blacklist DTRACE_IGNORED"
      and log = dtrace_log_plain and dctx = d] d r(1)
  have b: "dtrace_parse_log fs_r (blacklist DTRACE_IGNORED) dtrace_log_plain
             = Inr (realpath fs_r ` {''/r/a''}, realpath fs_r ` {''/r/b''})"
    by simp
  from parse_sets_disjoint [where fs = fs_win and bl = ?wbl and mapping = etw_mapping
      and rows = etw_log and lctx = l] l r(2)
  have c: "logman_parse_log fs_win ?wbl etw_mapping etw_log
             = Inr (realpath fs_win ` {?wa}, realpath fs_win ` {?wb})"
    by simp
  from a b c show ?thesis
    unfolding im by simp
qed

subsection \<open>extract_directories\<close>

text \<open>The shape of a result of \<^verbatim>\<open>dirname\<close>: empty, slashes only, or not ending in a slash.\<close>

lemma rstrip_sep_shape: "rstrip_sep s = [] \<or> last (rstrip_sep s) \<noteq> CHR ''/''"
proof -
  have "xs = [] \<or> \<not> P (hd xs)" if "xs = dropWhile P ys" for P and xs ys :: "'a list"
    using that hd_dropWhile by metis
  from this [of "dropWhile (\<lambda>c. c = CHR ''/'') (rev s)" "\<lambda>c. c = CHR ''/''" "rev s"]
  show ?thesis
    by (auto simp: rstrip_sep_def last_rev)
qed

lemma dirname_shape:
  "dirname p = [] \<or> last (dirname p) \<noteq> CHR ''/'' \<or> set (dirname p) \<subseteq> {CHR ''/''}"
proof -
  define head where "head = rev (dropWhile (\<lambda>c. c \<noteq> CHR ''/'') (rev p))"
  show ?thesis
  proof (cases "head \<noteq> [] \<and> head \<noteq> replicate (length head) CHR ''/''")
    case True
    then have "dirname p = rstrip_sep head"
      by (simp add: dirname_def head_def Let_def)
    with rstrip_sep_shape [of head] show ?thesis by auto
  next
    case False
    then have d: "dirname p = head"
      by (auto simp: dirname_def head_def Let_def)
    from False have "head = [] \<or> head = replicate (length head) CHR ''/''" by blast
    then show ?thesis
    proof
      assume "head = []"
      with d show ?thesis by simp
    next
      assume "head = replicate (length head) CHR ''/''"
      then have "set head \<subseteq> {CHR ''/''}"
        by (metis set_replicate_conv_if empty_subsetI subset_refl)
      with d show ?thesis by simp
    qed
  qed
qed

lemma dirname_join:
  assumes d: "d = [] \<or> last d \<noteq> CHR ''/'' \<or> set d \<subseteq> {CHR ''/''}"
    and e: "e \<noteq> []" "CHR ''/'' \<notin> set e"
  shows "dirname (join d e) = d"
proof -
  from e have ns: "\<not> startswith e ''/''"
    by (cases e) (auto simp: startswith_def)
  have dw: "dropWhile (\<lambda>c. c \<noteq> CHR ''/'') (rev e @ ys) = dropWhile (\<lambda>c. c \<noteq> CHR ''/'') ys" for ys
    using e(2) by (intro dropWhile_append2) auto
  consider "d = []" | "d \<noteq> []" "last d = CHR ''/''" | "d \<noteq> []" "last d \<noteq> CHR ''/''"
    by blast
  then show ?thesis
  proof cases
    case 1
    with ns have "join d e = e" by (simp add: join_def)
    moreover have "dropWhile (\<lambda>c. c \<noteq> CHR ''/'') (rev e) = []"
      using dw [of "[]"] by simp
    ultimately show ?thesis
      using 1 by (simp add: dirname_def)
  next
    case 2
    with d have all: "set d \<subseteq> {CHR ''/''}" by auto
    from 2 have j: "join d e = d @ e"
      using ns by (simp add: join_def endswith_char)
    from 2 have "hd (rev d) = CHR ''/''"
      by (simp add: hd_rev)
    with 2 have "dropWhile (\<lambda>c. c \<noteq> CHR ''/'') (rev d) = rev d"
      by (cases "rev d") auto
    then have head: "rev (dropWhile (\<lambda>c. c \<noteq> CHR ''/'') (rev (d @ e))) = d"
      by (simp add: dw)
    from all have "d = replicate (length d) CHR ''/''"
      by (metis replicate_length_same singletonD subsetD)
    with head j show ?thesis
      by (simp add: dirname_def)
  next
    case 3
    then have j: "join d e = d @ ''/'' @ e"
      using ns by (simp add: join_def endswith_char)
    have head: "rev (dropWhile (\<lambda>c. c \<noteq> CHR ''/'') (rev (d @ ''/'' @ e))) = d @ ''/''"
      using dw [of "CHR ''/'' # rev d"] by simp
    have nr: "d @ ''/'' \<noteq> replicate (length (d @ ''/'')) CHR ''/''"
    proof
      assume "d @ ''/'' = replicate (length (d @ ''/'')) CHR ''/''"
      then have "set (d @ ''/'') \<subseteq> {CHR ''/''}"
        by (metis set_replicate_conv_if empty_subsetI subset_refl)
      then have "set d \<subseteq> {CHR ''/''}"
        by simp
      moreover from 3 have "last d \<in> set d"
        by simp
      ultimately show False
        using 3 by blast
    qed
    from 3 have "hd (rev d) \<noteq> CHR ''/''"
      by (simp add: hd_rev)
    with 3 have "dropWhile (\<lambda>c. c = CHR ''/'') (rev d) = rev d"
      by (cases "rev d") auto
    then have "rstrip_sep (d @ ''/'') = d"
      by (simp add: rstrip_sep_def)
    with head nr j show ?thesis
      by (simp add: dirname_def Let_def)
  qed
qed

lemma actual_no_trailing_slash:
  assumes "\<forall>e \<in> set entries. e \<noteq> [] \<and> CHR ''/'' \<notin> set e" and "x \<in> actual d entries"
  shows "x \<noteq> [] \<and> last x \<noteq> CHR ''/''"
  using assms join_last by (auto simp: actual_def)

lemma actual_dirname:
  assumes "\<forall>e \<in> set entries. e \<noteq> [] \<and> CHR ''/'' \<notin> set e"
    and "d = [] \<or> last d \<noteq> CHR ''/'' \<or> set d \<subseteq> {CHR ''/''}"
    and "x \<in> actual d entries"
  shows "dirname x = d"
  using assms dirname_join by (auto simp: actual_def)
lemma extract_directories_loop_finite:
  "extract_directories_loop fs root ds F = Inr F' \<Longrightarrow> finite F \<Longrightarrow> finite F'"
proof (induction ds arbitrary: F)
  case Nil
  then show ?case by simp
next
  case (Cons d ds)
  then show ?case
    by (auto split: option.splits if_splits)
qed

lemma extract_directories_loop_total:
  "\<forall>d \<in> set ds. listdir fs (join root d) \<noteq> None
     \<Longrightarrow> \<exists>F'. extract_directories_loop fs root ds F = Inr F'"
  by (induction ds arbitrary: F) auto

lemma extract_directories_loop_dirs:
  assumes ok: "listing_ok fs"
    and "distinct ds"
    and "\<forall>d \<in> set ds. d = [] \<or> last d \<noteq> CHR ''/'' \<or> set d \<subseteq> {CHR ''/''}"
    and "extract_directories_loop fs root ds F = Inr F'"
  shows "D @ ''/'' \<in> F' \<longleftrightarrow>
           D @ ''/'' \<in> F
           \<or> (D \<in> set ds
               \<and> (\<exists>entries. listdir fs (join root D) = Some entries \<and> actual D entries \<subseteq> F))"
  using assms(2-4)
proof (induction ds arbitrary: F)
  case Nil
  then show ?case by simp
next
  case (Cons d ds)
  from Cons.prems(3) obtain entries where en: "listdir fs (join root d) = Some entries"
    by (auto split: option.splits)
  from ok en have wf: "\<forall>e \<in> set entries. e \<noteq> [] \<and> CHR ''/'' \<notin> set e"
    by (auto simp: listing_ok_def)
  from Cons.prems(2) have shd: "d = [] \<or> last d \<noteq> CHR ''/'' \<or> set d \<subseteq> {CHR ''/''}"
    and shds: "\<forall>d \<in> set ds. d = [] \<or> last d \<noteq> CHR ''/'' \<or> set d \<subseteq> {CHR ''/''}"
    by auto
  from Cons.prems(1) have dist: "d \<notin> set ds" "distinct ds"
    by auto
  have ns: "x @ ''/'' \<notin> actual d entries" for x
    using actual_no_trailing_slash [OF wf, of "x @ ''/''" d] by auto
  have other: "actual D' en' \<inter> actual d entries = {} \<and> d @ ''/'' \<notin> actual D' en'"
    if "D' \<in> set ds" "listdir fs (join root D') = Some en'" for D' en'
  proof -
    from ok that(2) have wf': "\<forall>e \<in> set en'. e \<noteq> [] \<and> CHR ''/'' \<notin> set e"
      by (auto simp: listing_ok_def)
    from that(1) shds have sh': "D' = [] \<or> last D' \<noteq> CHR ''/'' \<or> set D' \<subseteq> {CHR ''/''}"
      by blast
    have "actual D' en' \<inter> actual d entries = {}"
    proof (rule ccontr)
      assume "actual D' en' \<inter> actual d entries \<noteq> {}"
      then obtain x where "x \<in> actual D' en'" "x \<in> actual d entries"
        by blast
      then have "dirname x = D'" "dirname x = d"
        using actual_dirname [OF wf' sh'] actual_dirname [OF wf shd] by blast+
      with that(1) dist(1) show False by simp
    qed
    moreover have "d @ ''/'' \<notin> actual D' en'"
      using actual_no_trailing_slash [OF wf', of "d @ ''/''" D'] by auto
    ultimately show ?thesis by blast
  qed
  show ?case
  proof (cases "actual d entries \<subseteq> F")
    case True
    let ?F1 = "insert (d @ ''/'') (F - actual d entries)"
    from True en Cons.prems(3) have run: "extract_directories_loop fs root ds ?F1 = Inr F'"
      by (simp add: Diff_eq_empty_iff)
    have ih: "D @ ''/'' \<in> F' \<longleftrightarrow>
           D @ ''/'' \<in> ?F1
           \<or> (D \<in> set ds
               \<and> (\<exists>entries. listdir fs (join root D) = Some entries \<and> actual D entries \<subseteq> ?F1))"
      by (rule Cons.IH [OF dist(2) shds run])
    have i: "D @ ''/'' \<in> ?F1 \<longleftrightarrow> D = d \<or> D @ ''/'' \<in> F"
      using ns [of D] by auto
    have ii: "actual D en' \<subseteq> ?F1 \<longleftrightarrow> actual D en' \<subseteq> F"
      if "D \<in> set ds" "listdir fs (join root D) = Some en'" for en'
      using other [OF that] by blast
    from ih i ii True en dist(1) show ?thesis
      by auto
  next
    case False
    with en Cons.prems(3) have run: "extract_directories_loop fs root ds F = Inr F'"
      by (simp add: Diff_eq_empty_iff)
    have ih: "D @ ''/'' \<in> F' \<longleftrightarrow>
           D @ ''/'' \<in> F
           \<or> (D \<in> set ds
               \<and> (\<exists>entries. listdir fs (join root D) = Some entries \<and> actual D entries \<subseteq> F))"
      by (rule Cons.IH [OF dist(2) shds run])
    from ih False en show ?thesis
      by auto
  qed
qed

lemma actual_subset_iff:
  "actual D entries \<subseteq> S \<longleftrightarrow>
     (\<forall>e \<in> set entries. \<not> endswith e ''.svn'' \<and> \<not> endswith e ''.pyc'' \<longrightarrow> join D e \<in> S)"
  by (auto simp: actual_def)

text \<open>
  C2 (as stated, refuted). The empty directory \<^verbatim>\<open>/r/e\<close> lists no entry, so every entry it
  lists belongs to the input, yet \<^verbatim>\<open>e/\<close> is not in the output: only the directories of the
  input files are visited.
\<close>

theorem extract_directories_counterexample:
  "extract_directories fs_r [''d/x''] ''/r'' = Inr [''d/x'']
   \<and> listdir fs_r (join ''/r'' ''e'') = Some []
   \<and> \<not> (''e'' @ ''/'' \<in> set [''d/x'']
         \<longleftrightarrow> (\<forall>n \<in> set []. \<not> endswith n ''.svn'' \<and> \<not> endswith n ''.pyc''
                 \<longrightarrow> join ''e'' n \<in> set [''d/x'']))"
  by code_simp

text \<open>
  An input path that itself ends with the separator stays in the output as it is, whatever
  the directory lists; the amended statement leaves such inputs out.
\<close>

lemma extract_directories_keeps_separator_input:
  "extract_directories fs_r [''d/''] ''/r'' = Inr [''d/'']"
  by code_simp

text \<open>
  C2 (amended). Let the listings of the filesystem be well formed and let no input path end
  with the separator. When \<^verbatim>\<open>extract_directories\<close> returns, \<open>D\<close> plus separator is in its
  output if and only if \<open>D\<close> is the directory of some input path and every entry listed
  under \<open>root/D\<close> whose name ends neither in \<^verbatim>\<open>.svn\<close> nor in \<^verbatim>\<open>.pyc\<close>, joined to \<open>D\<close>,
  belongs to the input. It returns whenever the directory of every input path can be listed.
\<close>

theorem extract_directories_collapse:
  assumes "listing_ok fs" and "\<forall>f \<in> set paths. \<not> endswith f ''/''"
  shows
  "(extract_directories fs paths root = Inr out \<longrightarrow>
      (D @ ''/'' \<in> set out \<longleftrightarrow>
         D \<in> dirname ` set paths
         \<and> (\<exists>entries. listdir fs (join root D) = Some entries
              \<and> (\<forall>e \<in> set entries. \<not> endswith e ''.svn'' \<and> \<not> endswith e ''.pyc''
                    \<longrightarrow> join D e \<in> set paths))))
   \<and> ((\<forall>d \<in> dirname ` set paths. listdir fs (join root d) \<noteq> None)
        \<longrightarrow> (\<exists>out. extract_directories fs paths root = Inr out))"
proof -
  let ?ds = "rev (sorted_set (map dirname paths))"
  have ds: "distinct ?ds" "set ?ds = dirname ` set paths"
    by (simp_all add: sorted_set_props)
  have sh: "\<forall>d \<in> set ?ds. d = [] \<or> last d \<noteq> CHR ''/'' \<or> set d \<subseteq> {CHR ''/''}"
    using dirname_shape unfolding ds(2) by blast
  have a: "D @ ''/'' \<in> set out \<longleftrightarrow>
         D \<in> dirname ` set paths
         \<and> (\<exists>entries. listdir fs (join root D) = Some entries
              \<and> (\<forall>e \<in> set entries. \<not> endswith e ''.svn'' \<and> \<not> endswith e ''.pyc''
                    \<longrightarrow> join D e \<in> set paths))"
    if r: "extract_directories fs paths root = Inr out"
  proof -
    from r obtain F' where run: "extract_directories_loop fs root ?ds (set paths) = Inr F'"
      and out: "out = sorted_list_of_set F'"
      by (auto simp: extract_directories_def split: sum.splits)
    from extract_directories_loop_finite [OF run] out have so: "set out = F'"
      by simp
    from assms(2) have "D @ ''/'' \<notin> set paths"
      by (auto simp: endswith_char)
    with extract_directories_loop_dirs [OF assms(1) ds(1) sh run, of D] so ds(2)
    show ?thesis
      by (simp add: actual_subset_iff)
  qed
  have b: "\<exists>out. extract_directories fs paths root = Inr out"
    if "\<forall>d \<in> dirname ` set paths. listdir fs (join root d) \<noteq> None"
    using extract_directories_loop_total [of ?ds fs root "set paths"] that ds(2)
    by (auto simp: extract_directories_def)
  from a b show ?thesis
    by blast
qed

theorem extract_directories_collapse_witness:
  "listing_ok fs_r
   \<and> extract_directories fs_r [''d/y'', ''a'', ''d/x''] ''/r'' = Inr [''a'', ''d/'']
   \<and> ''d'' \<in> dirname ` set [''d/y'', ''a'', ''d/x'']
   \<and> listdir fs_r (join ''/r'' ''d'') = Some [''x'', ''y'']
   \<and> join ''d'' ''x'' \<in> set [''d/y'', ''a'', ''d/x'']
   \<and> join ''d'' ''y'' \<in> set [''d/y'', ''a'', ''d/x'']"
proof -
  have lo: "listing_ok fs_r"
    by (auto simp: listing_ok_def fs_r_def split: if_splits)
  have np: "\<forall>f \<in> set [''d/y'', ''a'', ''d/x'']. \<not> endswith f ''/''"
    by code_simp
  have ev: "extract_directories fs_r [''d/y'', ''a'', ''d/x''] ''/r'' = Inr [''a'', ''d/'']"
    by code_simp
  have li: "listdir fs_r (join ''/r'' ''d'') = Some [''x'', ''y'']"
    by code_simp
  have m: "''d'' @ ''/'' \<in> set [''a'', ''d/'']"
    by simp
  from extract_directories_collapse [OF lo np, of "''/r''" "[''a'', ''d/'']" "''d''"] ev m
  have "''d'' \<in> dirname ` set [''d/y'', ''a'', ''d/x'']
     \<and> (\<exists>entries. listdir fs_r (join ''/r'' ''d'') = Some entries
              \<and> (\<forall>e \<in> set entries. \<not> endswith e ''.svn'' \<and> \<not> endswith e ''.pyc''
                    \<longrightarrow> join ''d'' e \<in> set [''d/y'', ''a'', ''d/x'']))"
    by blast
  with li have "''d'' \<in> dirname ` set [''d/y'', ''a'', ''d/x'']"
    "\<forall>e \<in> set [''x'', ''y'']. \<not> endswith e ''.svn'' \<and> \<not> endswith e ''.pyc''
        \<longrightarrow> join ''d'' e \<in> set [''d/y'', ''a'', ''d/x'']"
    by auto
  moreover have "\<not> endswith ''x'' ''.svn''" "\<not> endswith ''x'' ''.pyc''"
    "\<not> endswith ''y'' ''.svn''" "\<not> endswith ''y'' ''.pyc''"
    by (simp_all add: endswith_def)
  ultimately have "''d'' \<in> dirname ` set [''d/y'', ''a'', ''d/x'']"
    "join ''d'' ''x'' \<in> set [''d/y'', ''a'', ''d/x'']"
    "join ''d'' ''y'' \<in> set [''d/y'', ''a'', ''d/x'']"
    by simp_all
  with lo ev li show ?thesis
    by blast
qed

end
